theory Spec2Isabelle
  imports Main "HOL-Library.AList"
begin

section \<open>JavaScript values\<close>

text \<open>
  The data layer (\<^verbatim>\<open>assets/js/database.js\<close>), the auth bridge (\<^verbatim>\<open>assets/js/auth.js\<close>) and the
  application module (\<^verbatim>\<open>assets/js/app.js\<close>) pass plain JSON data around: rows, filter
  arguments, profile updates, letter contexts. A value is a \<open>json\<close>; the JavaScript value
  \<^verbatim>\<open>undefined\<close>, which JSON cannot hold but which every read of a missing property yields, is
  \<open>None\<close> of \<open>json option\<close>. An object is the list of its own properties, each key once;
  \<open>map_of\<close> reads one and \<open>AList.update\<close> writes one (in place when the key exists,
  appended otherwise, as an object literal with a spread does). Numbers are the
  integer-valued ones: the runtime renders them in plain decimal as long as they stay below
  1e21, and rounds a sum beyond 2^53 to the nearest double (\<open>round_double\<close> below).
  Fractions are outside this development. A string is the list of the bytes of its UTF-8
  encoding.
\<close>

datatype json =
    JNull
  | JBool bool
  | JNum int
  | JStr string
  | JArr "json list"
  | JObj "(string \<times> json) list"

type_synonym jsval = "json option"

type_synonym obj = "(string \<times> json) list"

datatype error =
    NotAuthenticated
  | BackendError json
  | TypeError
  | RangeError

text \<open>
  Decimal rendering of a number, as \<^verbatim>\<open>String(n)\<close> and \<^verbatim>\<open>n.toString()\<close> give it for integers;
  \<open>decimal\<close> renders one that is not negative.
\<close>

definition digit_char :: "nat \<Rightarrow> char" where
  "digit_char d = ''0123456789'' ! d"

function decimal :: "int \<Rightarrow> string" where
  "decimal n = (if n < 10 then [digit_char (nat n)] else decimal (n div 10) @ [digit_char (nat (n mod 10))])"
  by pat_completeness auto
termination
  by (relation "measure nat") auto

declare decimal.simps [simp del]

definition show_int :: "int \<Rightarrow> string" where
  "show_int i = (if i < 0 then CHR ''-'' # decimal (- i) else decimal i)"

text \<open>\<^verbatim>\<open>Array.prototype.join(',')\<close> on already rendered elements.\<close>

fun join_comma :: "string list \<Rightarrow> string" where
  "join_comma [] = []"
| "join_comma [s] = s"
| "join_comma (s # t # ss) = s @ CHR '','' # join_comma (t # ss)"

text \<open>
  \<^verbatim>\<open>ToString\<close>: what a template literal or a string concatenation makes of a value. An array
  renders as its elements joined by commas (\<^verbatim>\<open>null\<close> elements as the empty string), a plain
  object as \<^verbatim>\<open>[object Object]\<close>.
\<close>

fun to_str :: "json \<Rightarrow> string" where
  "to_str JNull = ''null''"
| "to_str (JBool b) = (if b then ''true'' else ''false'')"
| "to_str (JNum n) = show_int n"
| "to_str (JStr s) = s"
| "to_str (JArr xs) = join_comma (map (\<lambda>x. if x = JNull then [] else to_str x) xs)"
| "to_str (JObj kv) = ''[object Object]''"

definition to_str_val :: "jsval \<Rightarrow> string" where
  "to_str_val v = (case v of None \<Rightarrow> ''undefined'' | Some j \<Rightarrow> to_str j)"

text \<open>
  Rendering an object calls its \<^verbatim>\<open>toString\<close>, which a plain object inherits from
  \<^verbatim>\<open>Object.prototype\<close>. An own property of that name hides the inherited function, and a value
  out of JSON is no function: rendering such an object throws a \<^verbatim>\<open>TypeError\<close>, and so does
  rendering an array that holds one. \<open>renders v\<close> says that \<open>v\<close> has a rendering, and \<open>to_string\<close>
  is \<^verbatim>\<open>ToString\<close> with the error; \<open>to_str\<close> is its result where there is one.
\<close>

fun renders :: "json \<Rightarrow> bool" where
  "renders (JArr xs) = list_all (\<lambda>x. x = JNull \<or> renders x) xs"
| "renders (JObj kv) = (map_of kv ''toString'' = None)"
| "renders v = True"


definition to_string :: "json \<Rightarrow> error + string" where
  "to_string v = (if renders v then Inr (to_str v) else Inl TypeError)"

definition to_string_val :: "jsval \<Rightarrow> error + string" where
  "to_string_val v = (case v of None \<Rightarrow> Inr ''undefined'' | Some j \<Rightarrow> to_string j)"

text \<open>Truthiness, as \<^verbatim>\<open>if (v)\<close>, \<^verbatim>\<open>!v\<close> and \<^verbatim>\<open>v || d\<close> test it.\<close>

fun truthy :: "json \<Rightarrow> bool" where
  "truthy JNull = False"
| "truthy (JBool b) = b"
| "truthy (JNum n) = (n \<noteq> 0)"
| "truthy (JStr s) = (s \<noteq> [])"
| "truthy (JArr xs) = True"
| "truthy (JObj kv) = True"

definition truthy_val :: "jsval \<Rightarrow> bool" where
  "truthy_val v = (case v of None \<Rightarrow> False | Some j \<Rightarrow> truthy j)"

definition js_or :: "jsval \<Rightarrow> json \<Rightarrow> json" where
  "js_or v d = (case v of None \<Rightarrow> d | Some j \<Rightarrow> if truthy j then j else d)"

text \<open>
  \<^verbatim>\<open>v.k\<close> for a property name \<open>k\<close> that is no built-in member (\<^verbatim>\<open>id\<close>, \<^verbatim>\<open>date\<close>,
  \<^verbatim>\<open>hours\<close>, \<^verbatim>\<open>title\<close>, ...): a \<^verbatim>\<open>TypeError\<close> on \<^verbatim>\<open>null\<close>, the own property of an object,
  \<^verbatim>\<open>undefined\<close> on every other value.
\<close>

fun get_prop :: "json \<Rightarrow> string \<Rightarrow> error + jsval" where
  "get_prop JNull k = Inl TypeError"
| "get_prop (JObj kv) k = Inr (map_of kv k)"
| "get_prop v k = Inr None"

text \<open>
  Strict equality \<^verbatim>\<open>===\<close> between a value read out of parsed JSON and a value the caller
  holds: primitives compare by type and content; an array or object out of \<^verbatim>\<open>JSON.parse\<close>
  is a fresh reference, identical to nothing the caller has.
\<close>

fun strict_eq :: "jsval \<Rightarrow> jsval \<Rightarrow> bool" where
  "strict_eq None None = True"
| "strict_eq (Some JNull) (Some JNull) = True"
| "strict_eq (Some (JBool a)) (Some (JBool b)) = (a = b)"
| "strict_eq (Some (JNum a)) (Some (JNum b)) = (a = b)"
| "strict_eq (Some (JStr a)) (Some (JStr b)) = (a = b)"
| "strict_eq a b = False"

text \<open>
  The own enumerable properties an object spread \<^verbatim>\<open>{...v}\<close> copies: those of an object, the
  indexed elements of an array or string, nothing for the other values.
\<close>

fun indexed :: "nat \<Rightarrow> json list \<Rightarrow> obj" where
  "indexed i [] = []"
| "indexed i (x # xs) = (show_int (int i), x) # indexed (Suc i) xs"

fun spread :: "json \<Rightarrow> obj" where
  "spread (JObj kv) = kv"
| "spread (JArr xs) = indexed 0 xs"
| "spread (JStr s) = indexed 0 (map (\<lambda>c. JStr [c]) s)"
| "spread v = []"

text \<open>\<^verbatim>\<open>{...a, ...b}\<close>: the properties of \<open>b\<close> written over those of \<open>a\<close>, one by one.\<close>

definition assign :: "obj \<Rightarrow> obj \<Rightarrow> obj" where
  "assign a b = fold (\<lambda>(k, v). AList.update k v) b a"

section \<open>The state the modules share\<close>

text \<open>
  \<open>localStorage\<close> maps a key to the JSON value its stored text parses to (every write in
  the source is \<^verbatim>\<open>JSON.stringify\<close>, every read \<^verbatim>\<open>JSON.parse\<close>). \<open>dbAvailable\<close> is the
  mode selector \<^verbatim>\<open>isDatabaseAvailable()\<close>; \<open>sessionUser\<close> is what the hosted auth service
  answers to \<^verbatim>\<open>auth.getUser()\<close> (\<open>JNull\<close>: no session) and \<open>backend\<close> is what it answers to
  a data request now, as the pair of \<^verbatim>\<open>data\<close> and \<^verbatim>\<open>error\<close>; \<open>served b rq\<close> is what a backend
  that answered as \<open>b\<close> answers once it has served the request \<open>rq\<close>, so a request may change
  what later requests are answered. \<open>staticSnapshot\<close> is the parsed body of the bundled
  \<^verbatim>\<open>opportunities.json\<close> (\<open>None\<close>: the fetch or the parse fails).
  \<open>firebaseAuth\<close> says whether auth.js found a configured Firebase (\<^verbatim>\<open>auth !== null\<close>).
  \<open>requests\<close> records every network request issued, oldest first. The \<open>app\<close> fields are
  those of \<^verbatim>\<open>AppState\<close>, which app.js has published as \<^verbatim>\<open>window.VolunteerConnect.AppState\<close>;
  \<open>dispatched\<close> holds the window events sent and \<open>alerts\<close> the messages shown, oldest
  first. The DOM itself (class toggles, the login modal, focus) is not part of the state.
  The clock and the random source are read by the caller: an operation that reads them
  takes the readings as arguments.
\<close>

datatype qfilter =
    Eq string jsval
  | Gte string json
  | Lte string json
  | Contains string "json list"

text \<open>
  \<open>Select table filters order limit single\<close> is
  \<^verbatim>\<open>from(table).select('*')\<close> with its \<^verbatim>\<open>eq\<close>/\<^verbatim>\<open>gte\<close>/\<^verbatim>\<open>lte\<close>/\<^verbatim>\<open>contains\<close> filters in call
  order, the \<^verbatim>\<open>order\<close> column with its \<^verbatim>\<open>ascending\<close> flag, the \<^verbatim>\<open>limit\<close> and whether
  \<^verbatim>\<open>single()\<close> was asked for.
\<close>

datatype request =
    AuthGetUser
  | AuthSignOut
  | Select string "qfilter list" "(string \<times> bool) option" jsval bool
  | Insert string obj
  | Update string obj "qfilter list"
  | Delete string "qfilter list"
  | FetchStatic string

datatype notification = UserSignedIn json | UserSignedOut

datatype alert = AuthError string | AuthSuccess string

record state =
  dbAvailable :: bool
  sessionUser :: json
  backend :: "request \<Rightarrow> json \<times> json"
  served :: "(request \<Rightarrow> json \<times> json) \<Rightarrow> request \<Rightarrow> request \<Rightarrow> json \<times> json"
  staticSnapshot :: "json option"
  firebaseAuth :: bool
  localStorage :: "string \<Rightarrow> json option"
  requests :: "request list"
  appUser :: json
  appVolunteers :: "json list"
  appOpportunities :: "json list"
  appSchedule :: "json list"
  appHours :: "json list"
  appCurrentPage :: string
  dispatched :: "notification list"
  alerts :: "alert list"

definition isDatabaseAvailable :: "state \<Rightarrow> bool" where
  "isDatabaseAvailable st = dbAvailable st"

text \<open>\<^verbatim>\<open>JSON.parse(localStorage.getItem(key) || '[]')\<close>.\<close>

definition stored_or :: "state \<Rightarrow> string \<Rightarrow> json \<Rightarrow> json" where
  "stored_or st key d = (case localStorage st key of None \<Rightarrow> d | Some v \<Rightarrow> v)"

definition setItem :: "string \<Rightarrow> json \<Rightarrow> state \<Rightarrow> state" where
  "setItem key v st = st\<lparr>localStorage := (localStorage st)(key \<mapsto> v)\<rparr>"

definition removeItem :: "string \<Rightarrow> state \<Rightarrow> state" where
  "removeItem key st = st\<lparr>localStorage := (localStorage st)(key := None)\<rparr>"

text \<open>A method of \<^verbatim>\<open>Array.prototype\<close> called on a parsed value: a \<^verbatim>\<open>TypeError\<close> unless it is an array.\<close>

definition as_array :: "json \<Rightarrow> error + json list" where
  "as_array v = (case v of JArr xs \<Rightarrow> Inr xs | _ \<Rightarrow> Inl TypeError)"

text \<open>
  \<^verbatim>\<open>xs.filter(h => p(h))\<close> where the predicate may throw: the first exception ends the call.
\<close>

fun filter_rows :: "(json \<Rightarrow> error + bool) \<Rightarrow> json list \<Rightarrow> error + json list" where
  "filter_rows p [] = Inr []"
| "filter_rows p (h # hs) =
     (case p h of
        Inl e \<Rightarrow> Inl e
      | Inr keep \<Rightarrow>
          (case filter_rows p hs of
             Inl e \<Rightarrow> Inl e
           | Inr rest \<Rightarrow> Inr (if keep then h # rest else rest)))"

section \<open>Dates\<close>

text \<open>
  A time value is the number of milliseconds since the epoch. \<open>civil_from_days\<close> gives the
  proleptic Gregorian year, month and day of a day number, which is what the runtime's
  \<^verbatim>\<open>YearFromTime\<close>, \<^verbatim>\<open>MonthFromTime\<close> and \<^verbatim>\<open>DateFromTime\<close> compute. It counts in eras of
  400 years (146097 days) from 1 March of year 0: \<open>doe\<close> is the day of the era,
  \<open>year_of_era\<close> the year within it, \<open>day_of_year\<close> the day counted from 1 March and
  \<open>month_index\<close> the month counted from March.
\<close>

definition msPerDay :: int where
  "msPerDay = 86400000"

definition year_of_era :: "int \<Rightarrow> int" where
  "year_of_era doe = (doe - doe div 1460 + doe div 36524 - doe div 146096) div 365"

definition day_of_year :: "int \<Rightarrow> int" where
  "day_of_year doe = doe - (365 * year_of_era doe + year_of_era doe div 4 - year_of_era doe div 100)"

definition month_index :: "int \<Rightarrow> int" where
  "month_index doe = (5 * day_of_year doe + 2) div 153"

definition civil_from_days :: "int \<Rightarrow> int \<times> int \<times> int" where
  "civil_from_days z =
     (let era = (z + 719468) div 146097;
          doe = (z + 719468) mod 146097;
          m = (if month_index doe < 10 then month_index doe + 3 else month_index doe - 9)
      in (year_of_era doe + era * 400 + (if m \<le> 2 then 1 else 0),
          m,
          day_of_year doe - (153 * month_index doe + 2) div 5 + 1))"

text \<open>The last \<open>w\<close> decimal digits of \<open>n\<close>: a field of fixed width, zero-padded.\<close>

primrec digits :: "nat \<Rightarrow> int \<Rightarrow> string" where
  "digits 0 n = []"
| "digits (Suc w) n = digits w (n div 10) @ [digit_char (nat (n mod 10))]"

definition yearFromTime :: "int \<Rightarrow> int" where
  "yearFromTime t = fst (civil_from_days (t div msPerDay))"

definition monthFromTime :: "int \<Rightarrow> int" where
  "monthFromTime t = fst (snd (civil_from_days (t div msPerDay)))"

definition dateFromTime :: "int \<Rightarrow> int" where
  "dateFromTime t = snd (snd (civil_from_days (t div msPerDay)))"

definition msWithinDay :: "int \<Rightarrow> int" where
  "msWithinDay t = t mod msPerDay"

definition year_str :: "int \<Rightarrow> string" where
  "year_str y =
     (if 0 \<le> y \<and> y \<le> 9999 then digits 4 y
      else (if y < 0 then CHR ''-'' else CHR ''+'') # digits 6 \<bar>y\<bar>)"

text \<open>
  \<^verbatim>\<open>Date.prototype.toISOString\<close> of a valid time value: \<^verbatim>\<open>YYYY-MM-DDTHH:mm:ss.sssZ\<close>, the
  year with a sign and six digits outside 0000 to 9999.
\<close>

definition toISOString :: "int \<Rightarrow> string" where
  "toISOString t =
     year_str (yearFromTime t) @ CHR ''-'' # digits 2 (monthFromTime t)
     @ CHR ''-'' # digits 2 (dateFromTime t)
     @ CHR ''T'' # digits 2 (msWithinDay t div 3600000)
     @ CHR '':'' # digits 2 (msWithinDay t div 60000 mod 60)
     @ CHR '':'' # digits 2 (msWithinDay t div 1000 mod 60)
     @ CHR ''.'' # digits 3 (msWithinDay t mod 1000) @ ''Z''"

text \<open>
  The parts of the runtime the source relies on and this development leaves open:
  \<open>dateParse\<close> is \<^verbatim>\<open>Date.parse\<close> on a string (\<open>None\<close>: not a date), whose accepted formats
  are the engine's choice; \<open>relGE\<close> and \<open>relLE\<close> are the relational operators \<^verbatim>\<open>>=\<close> and
  \<^verbatim>\<open><=\<close> on arbitrary values; \<open>localMonthStart now\<close> and \<open>localYearStart now\<close> are the time
  values of \<^verbatim>\<open>new Date(y, m, 1)\<close> and \<^verbatim>\<open>new Date(y, 0, 1)\<close> in the browser's time zone.
\<close>

record runtime =
  dateParse :: "string \<Rightarrow> int option"
  relGE :: "jsval \<Rightarrow> jsval \<Rightarrow> bool"
  relLE :: "jsval \<Rightarrow> jsval \<Rightarrow> bool"
  localMonthStart :: "int \<Rightarrow> int"
  localYearStart :: "int \<Rightarrow> int"

text \<open>\<^verbatim>\<open>TimeClip\<close>: a time value beyond 8.64e15 milliseconds either side is an invalid date.\<close>

definition timeClip :: "int \<Rightarrow> int option" where
  "timeClip t = (if \<bar>t\<bar> \<le> 8640000000000000 then Some t else None)"

text \<open>
  \<^verbatim>\<open>new Date(v)\<close>: a string is parsed, an array or object is first rendered as a string
  (a \<^verbatim>\<open>TypeError\<close> when it has no rendering), \<^verbatim>\<open>null\<close> and booleans count as numbers,
  \<^verbatim>\<open>undefined\<close> gives an invalid date (\<open>None\<close>).
\<close>

definition parse_clip :: "runtime \<Rightarrow> string \<Rightarrow> int option" where
  "parse_clip rt s = (case dateParse rt s of None \<Rightarrow> None | Some t \<Rightarrow> timeClip t)"

fun newDate :: "runtime \<Rightarrow> jsval \<Rightarrow> error + int option" where
  "newDate rt None = Inr None"
| "newDate rt (Some JNull) = Inr (Some 0)"
| "newDate rt (Some (JBool b)) = Inr (Some (if b then 1 else 0))"
| "newDate rt (Some (JNum n)) = Inr (timeClip n)"
| "newDate rt (Some (JStr s)) = Inr (parse_clip rt s)"
| "newDate rt (Some v) = (if renders v then Inr (parse_clip rt (to_str v)) else Inl TypeError)"

section \<open>The data layer: database.js\<close>

subsection \<open>Current user and requests\<close>

definition dbGetCurrentUser :: "state \<Rightarrow> json \<times> state" where
  "dbGetCurrentUser st =
     (if \<not> isDatabaseAvailable st then (stored_or st ''volunteerConnectUser'' JNull, st)
      else (sessionUser st, st\<lparr>requests := requests st @ [AuthGetUser]\<rparr>))"

text \<open>
  A request sent to the hosted backend: it is recorded, the backend's answer is read, and the
  backend goes on as one that has served it.
\<close>

definition send :: "request \<Rightarrow> state \<Rightarrow> (json \<times> json) \<times> state" where
  "send rq st =
     (backend st rq, st\<lparr>requests := requests st @ [rq], backend := served st (backend st) rq\<rparr>)"

text \<open>
  \<open>field v k\<close> is \<^verbatim>\<open>v.k\<close> where \<open>v\<close> is known not to be \<^verbatim>\<open>null\<close>; \<^verbatim>\<open>user.id\<close> of a signed-in
  user is read so. A property set to \<^verbatim>\<open>undefined\<close> is left out of a JSON text, so \<open>stamp\<close>
  removes the key when the value is \<^verbatim>\<open>undefined\<close>.
\<close>

definition field :: "json \<Rightarrow> string \<Rightarrow> jsval" where
  "field v k = (case get_prop v k of Inl e \<Rightarrow> None | Inr x \<Rightarrow> x)"

definition user_id_of :: "json \<Rightarrow> jsval" where
  "user_id_of user = field user ''id''"

definition stamp :: "string \<Rightarrow> jsval \<Rightarrow> obj \<Rightarrow> obj" where
  "stamp k v row = (case v of None \<Rightarrow> AList.delete k row | Some j \<Rightarrow> AList.update k j row)"

text \<open>An optional \<^verbatim>\<open>if (v) query = query.op(column, v)\<close> step of a remote query.\<close>

definition opt_filter :: "jsval \<Rightarrow> (json \<Rightarrow> qfilter) \<Rightarrow> qfilter list" where
  "opt_filter v mk = (case v of None \<Rightarrow> [] | Some j \<Rightarrow> if truthy j then [mk j] else [])"

text \<open>
  The remote branch of the three list operations: \<^verbatim>\<open>if (!user) return []\<close>, then the query
  built by \<open>mk\<close> from the user's id, \<^verbatim>\<open>if (error) throw error\<close>, \<^verbatim>\<open>return data || []\<close>.
\<close>

definition remote_list :: "state \<Rightarrow> (jsval \<Rightarrow> request) \<Rightarrow> (error + json) \<times> state" where
  "remote_list st mk =
     (case dbGetCurrentUser st of
        (user, st1) \<Rightarrow>
          if \<not> truthy user then (Inr (JArr []), st1)
          else
            (case send (mk (user_id_of user)) st1 of
               ((data, err), st2) \<Rightarrow>
                 if truthy err then (Inl (BackendError err), st2)
                 else (Inr (js_or (Some data) (JArr [])), st2)))"

text \<open>
  The remote branch of the operations that write: \<^verbatim>\<open>if (!user) throw new Error('Not
  authenticated')\<close>, then the request built by \<open>mk\<close> from the user's id, \<^verbatim>\<open>if (error) throw
  error\<close>, and the backend's \<^verbatim>\<open>data\<close> as result.
\<close>

definition remote_write :: "state \<Rightarrow> (jsval \<Rightarrow> request) \<Rightarrow> (error + json) \<times> state" where
  "remote_write st mk =
     (case dbGetCurrentUser st of
        (user, st1) \<Rightarrow>
          if \<not> truthy user then (Inl NotAuthenticated, st1)
          else
            (case send (mk (user_id_of user)) st1 of
               ((data, err), st2) \<Rightarrow>
                 if truthy err then (Inl (BackendError err), st2) else (Inr data, st2)))"

text \<open>
  The local branch of the three insert operations. \<open>now_id\<close> and \<open>now\<close> are the clock
  readings of \<^verbatim>\<open>Date.now()\<close> and \<^verbatim>\<open>new Date()\<close>.
\<close>

definition new_row :: "int \<Rightarrow> int \<Rightarrow> json \<Rightarrow> obj" where
  "new_row now_id now entry =
     AList.update ''created_at'' (JStr (toISOString now))
       (AList.update ''id'' (JStr (show_int now_id)) (spread entry))"

definition local_add :: "string \<Rightarrow> state \<Rightarrow> int \<Rightarrow> int \<Rightarrow> json \<Rightarrow> (error + json) \<times> state" where
  "local_add key st now_id now entry =
     (case as_array (stored_or st key (JArr [])) of
        Inl e \<Rightarrow> (Inl e, st)
      | Inr rows \<Rightarrow>
          (let newEntry = JObj (new_row now_id now entry)
           in (Inr newEntry, setItem key (JArr (rows @ [newEntry])) st)))"

text \<open>The local branch of the two delete operations: \<^verbatim>\<open>rows.filter(h => h.id !== id)\<close>.\<close>

definition id_differs :: "jsval \<Rightarrow> json \<Rightarrow> error + bool" where
  "id_differs i h = (case get_prop h ''id'' of Inl e \<Rightarrow> Inl e | Inr v \<Rightarrow> Inr (\<not> strict_eq v i))"

definition local_delete :: "string \<Rightarrow> state \<Rightarrow> jsval \<Rightarrow> (error + unit) \<times> state" where
  "local_delete key st i =
     (case as_array (stored_or st key (JArr [])) of
        Inl e \<Rightarrow> (Inl e, st)
      | Inr rows \<Rightarrow>
          (case filter_rows (id_differs i) rows of
             Inl e \<Rightarrow> (Inl e, st)
           | Inr kept \<Rightarrow> (Inr (), setItem key (JArr kept) st)))"

definition remote_delete :: "string \<Rightarrow> state \<Rightarrow> jsval \<Rightarrow> (error + unit) \<times> state" where
  "remote_delete table st i =
     (case remote_write st (\<lambda>uid. Delete table [Eq ''id'' i, Eq ''user_id'' uid]) of
        (Inl e, st') \<Rightarrow> (Inl e, st')
      | (Inr data, st') \<Rightarrow> (Inr (), st'))"

text \<open>One optional \<^verbatim>\<open>rows = rows.filter(h => h.date >= bound)\<close> step of a local listing.\<close>

definition date_from :: "runtime \<Rightarrow> json \<Rightarrow> json \<Rightarrow> error + bool" where
  "date_from rt bound h =
     (case get_prop h ''date'' of Inl e \<Rightarrow> Inl e | Inr d \<Rightarrow> Inr (relGE rt d (Some bound)))"

definition date_upto :: "runtime \<Rightarrow> json \<Rightarrow> json \<Rightarrow> error + bool" where
  "date_upto rt bound h =
     (case get_prop h ''date'' of Inl e \<Rightarrow> Inl e | Inr d \<Rightarrow> Inr (relLE rt d (Some bound)))"

definition filter_step :: "jsval \<Rightarrow> (json \<Rightarrow> json \<Rightarrow> error + bool) \<Rightarrow> json \<Rightarrow> error + json" where
  "filter_step bound p rows =
     (case bound of
        None \<Rightarrow> Inr rows
      | Some b \<Rightarrow>
          if truthy b then
            (case as_array rows of
               Inl e \<Rightarrow> Inl e
             | Inr xs \<Rightarrow> (case filter_rows (p b) xs of Inl e \<Rightarrow> Inl e | Inr ys \<Rightarrow> Inr (JArr ys)))
          else Inr rows)"

section \<open>Auth-state notification: auth.js\<close>

text \<open>
  \<^verbatim>\<open>handleAuthStateChange(user)\<close>: the shared session object \<^verbatim>\<open>AppState.user\<close> is replaced and
  one of the two window events is dispatched, \<^verbatim>\<open>userSignedIn\<close> with the user as detail or
  \<^verbatim>\<open>userSignedOut\<close>.
\<close>

definition handleAuthStateChange :: "json \<Rightarrow> state \<Rightarrow> state" where
  "handleAuthStateChange user st =
     (if truthy user then
        st\<lparr>appUser :=
             JObj (stamp ''photoURL'' (field user ''photoURL'')
                    (stamp ''email'' (field user ''email'')
                      (stamp ''name'' (field user ''displayName'')
                        (stamp ''uid'' (field user ''uid'') [])))),
           dispatched := dispatched st @ [UserSignedIn user]\<rparr>
      else st\<lparr>appUser := JNull, dispatched := dispatched st @ [UserSignedOut]\<rparr>)"

definition showAuthError :: "string \<Rightarrow> state \<Rightarrow> state" where
  "showAuthError message st = st\<lparr>alerts := alerts st @ [AuthError message]\<rparr>"

definition showAuthSuccess :: "string \<Rightarrow> state \<Rightarrow> state" where
  "showAuthSuccess message st = st\<lparr>alerts := alerts st @ [AuthSuccess message]\<rparr>"

section \<open>The operations of database.js\<close>

definition dbSignOut :: "state \<Rightarrow> state" where
  "dbSignOut st =
     (if \<not> isDatabaseAvailable st then
        handleAuthStateChange JNull (removeItem ''volunteerProfile'' (removeItem ''volunteerConnectUser'' st))
      else snd (send AuthSignOut st))"

subsection \<open>Profile\<close>

definition dbGetProfile :: "state \<Rightarrow> json \<times> state" where
  "dbGetProfile st =
     (if \<not> isDatabaseAvailable st then (stored_or st ''volunteerProfile'' JNull, st)
      else
        (case dbGetCurrentUser st of
           (user, st1) \<Rightarrow>
             if \<not> truthy user then (JNull, st1)
             else
               (case send (Select ''profiles'' [Eq ''id'' (user_id_of user)] None None True) st1 of
                  ((data, err), st2) \<Rightarrow> if truthy err then (JNull, st2) else (data, st2))))"

definition merged_profile :: "json \<Rightarrow> json \<Rightarrow> int \<Rightarrow> obj" where
  "merged_profile existing profileData now =
     AList.update ''updated_at'' (JStr (toISOString now)) (assign (spread existing) (spread profileData))"

definition dbUpdateProfile :: "state \<Rightarrow> int \<Rightarrow> json \<Rightarrow> (error + json) \<times> state" where
  "dbUpdateProfile st now profileData =
     (if \<not> isDatabaseAvailable st then
        (let updated = JObj (merged_profile (stored_or st ''volunteerProfile'' (JObj [])) profileData now)
         in (Inr updated, setItem ''volunteerProfile'' updated st))
      else
        remote_write st
          (\<lambda>uid. Update ''profiles''
                   (AList.update ''updated_at'' (JStr (toISOString now)) (spread profileData))
                   [Eq ''id'' uid]))"

subsection \<open>Hours log\<close>

record hours_filters =
  startDate :: jsval
  endDate :: jsval

definition no_filters :: hours_filters where
  "no_filters = \<lparr>startDate = None, endDate = None\<rparr>"

definition hours_query :: "hours_filters \<Rightarrow> jsval \<Rightarrow> request" where
  "hours_query f uid =
     Select ''hours_log''
       ([Eq ''user_id'' uid] @ opt_filter (startDate f) (Gte ''date'') @ opt_filter (endDate f) (Lte ''date''))
       (Some (''date'', False)) None False"

definition dbGetHoursLog :: "runtime \<Rightarrow> state \<Rightarrow> hours_filters \<Rightarrow> (error + json) \<times> state" where
  "dbGetHoursLog rt st f =
     (if \<not> isDatabaseAvailable st then
        (case filter_step (startDate f) (date_from rt) (stored_or st ''volunteerHoursLog'' (JArr [])) of
           Inl e \<Rightarrow> (Inl e, st)
         | Inr filtered \<Rightarrow> (filter_step (endDate f) (date_upto rt) filtered, st))
      else remote_list st (hours_query f))"

definition dbAddHoursEntry :: "state \<Rightarrow> int \<Rightarrow> int \<Rightarrow> json \<Rightarrow> (error + json) \<times> state" where
  "dbAddHoursEntry st now_id now entry =
     (if \<not> isDatabaseAvailable st then local_add ''volunteerHoursLog'' st now_id now entry
      else remote_write st (\<lambda>uid. Insert ''hours_log'' (stamp ''user_id'' uid (spread entry))))"

definition dbDeleteHoursEntry :: "state \<Rightarrow> jsval \<Rightarrow> (error + unit) \<times> state" where
  "dbDeleteHoursEntry st i =
     (if \<not> isDatabaseAvailable st then local_delete ''volunteerHoursLog'' st i
      else remote_delete ''hours_log'' st i)"

subsection \<open>Events\<close>

record event_filters =
  upcoming :: jsval

text \<open>\<^verbatim>\<open>new Date().toISOString().split('T')[0]\<close>.\<close>

definition today_str :: "int \<Rightarrow> string" where
  "today_str now = takeWhile (\<lambda>c. c \<noteq> CHR ''T'') (toISOString now)"

definition events_query :: "event_filters \<Rightarrow> int \<Rightarrow> jsval \<Rightarrow> request" where
  "events_query f now uid =
     Select ''events''
       ([Eq ''user_id'' uid] @ (if truthy_val (upcoming f) then [Gte ''date'' (JStr (today_str now))] else []))
       (Some (''date'', True)) None False"

definition dbGetEvents :: "runtime \<Rightarrow> state \<Rightarrow> int \<Rightarrow> event_filters \<Rightarrow> (error + json) \<times> state" where
  "dbGetEvents rt st now f =
     (if \<not> isDatabaseAvailable st then
        (let events = stored_or st ''volunteerEvents'' (JArr []) in
           if truthy_val (upcoming f) then
             (case as_array events of
                Inl e \<Rightarrow> (Inl e, st)
              | Inr xs \<Rightarrow>
                  (case filter_rows (date_from rt (JStr (today_str now))) xs of
                     Inl e \<Rightarrow> (Inl e, st)
                   | Inr ys \<Rightarrow> (Inr (JArr ys), st)))
           else (Inr events, st))
      else remote_list st (events_query f now))"

definition dbAddEvent :: "state \<Rightarrow> int \<Rightarrow> int \<Rightarrow> json \<Rightarrow> (error + json) \<times> state" where
  "dbAddEvent st now_id now event =
     (if \<not> isDatabaseAvailable st then local_add ''volunteerEvents'' st now_id now event
      else remote_write st (\<lambda>uid. Insert ''events'' (stamp ''user_id'' uid (spread event))))"

definition dbDeleteEvent :: "state \<Rightarrow> jsval \<Rightarrow> (error + unit) \<times> state" where
  "dbDeleteEvent st i =
     (if \<not> isDatabaseAvailable st then local_delete ''volunteerEvents'' st i
      else remote_delete ''events'' st i)"

subsection \<open>Letters\<close>

record letter_filters =
  letterType :: jsval

definition letters_query :: "letter_filters \<Rightarrow> jsval \<Rightarrow> request" where
  "letters_query f uid =
     Select ''letters''
       ([Eq ''user_id'' uid] @ opt_filter (letterType f) (\<lambda>t. Eq ''letter_type'' (Some t)))
       (Some (''created_at'', False)) None False"

definition dbGetLetters :: "state \<Rightarrow> letter_filters \<Rightarrow> (error + json) \<times> state" where
  "dbGetLetters st f =
     (if \<not> isDatabaseAvailable st then (Inr (stored_or st ''volunteerLetters'' (JArr [])), st)
      else remote_list st (letters_query f))"

definition dbSaveLetter :: "state \<Rightarrow> int \<Rightarrow> int \<Rightarrow> json \<Rightarrow> (error + json) \<times> state" where
  "dbSaveLetter st now_id now letter =
     (if \<not> isDatabaseAvailable st then local_add ''volunteerLetters'' st now_id now letter
      else remote_write st (\<lambda>uid. Insert ''letters'' (stamp ''user_id'' uid (spread letter))))"

subsection \<open>Opportunities\<close>

record opp_filters =
  causeArea :: jsval
  isVirtual :: jsval
  limit :: jsval

definition opportunities_query :: "opp_filters \<Rightarrow> request" where
  "opportunities_query f =
     Select ''opportunities''
       ([Eq ''is_active'' (Some (JBool True))]
        @ opt_filter (causeArea f) (\<lambda>c. Contains ''cause_areas'' [c])
        @ (case isVirtual f of None \<Rightarrow> [] | Some v \<Rightarrow> [Eq ''is_virtual'' (Some v)]))
       (Some (''updated_at'', False))
       (if truthy_val (limit f) then limit f else None) False"

text \<open>
  The fallback: the bundled snapshot is fetched and its \<^verbatim>\<open>opportunities\<close> member returned;
  the \<^verbatim>\<open>catch\<close> turns a failed fetch, a body that is no JSON and a \<^verbatim>\<open>null\<close> body into the
  empty list.
\<close>

definition static_opportunities :: "state \<Rightarrow> json \<times> state" where
  "static_opportunities st =
     (let st1 = st\<lparr>requests := requests st @ [FetchStatic ''/volunteer-connect-hub/data/opportunities.json'']\<rparr>
      in case staticSnapshot st of
           None \<Rightarrow> (JArr [], st1)
         | Some data \<Rightarrow>
             (case get_prop data ''opportunities'' of
                Inl e \<Rightarrow> (JArr [], st1)
              | Inr v \<Rightarrow> (js_or v (JArr []), st1)))"

definition dbGetOpportunities :: "state \<Rightarrow> opp_filters \<Rightarrow> json \<times> state" where
  "dbGetOpportunities st f =
     (if isDatabaseAvailable st then
        (case send (opportunities_query f) st of
           ((data, err), st1) \<Rightarrow>
             if \<not> truthy err \<and> truthy data then (data, st1) else static_opportunities st1)
      else static_opportunities st)"

section \<open>Demo sign-in and sign-out: auth.js\<close>

text \<open>
  \<^verbatim>\<open>String.prototype.trim\<close> removes white space and line terminators from both ends. A text
  being the bytes of its UTF-8 encoding, \<open>white_space\<close> lists the encodings of the code points
  the language counts as such: the six ASCII ones (tab, line feed, vertical tab, form feed,
  carriage return, space), U+00A0, U+1680, U+2000 to U+200A, U+2028, U+2029, U+202F, U+205F,
  U+3000 and U+FEFF. \<open>strip_start ws s\<close> removes from the start of \<open>s\<close> every leading
  occurrence of a sequence of \<open>ws\<close>; the end of a text is stripped as the start of its
  reverse.
\<close>

definition white_space :: "string list" where
  "white_space =
     [[CHR 0x09], [CHR 0x0A], [CHR 0x0B], [CHR 0x0C], [CHR 0x0D], [CHR 0x20],
      [CHR 0xC2, CHR 0xA0],
      [CHR 0xE1, CHR 0x9A, CHR 0x80],
      [CHR 0xE2, CHR 0x80, CHR 0x80], [CHR 0xE2, CHR 0x80, CHR 0x81], [CHR 0xE2, CHR 0x80, CHR 0x82],
      [CHR 0xE2, CHR 0x80, CHR 0x83], [CHR 0xE2, CHR 0x80, CHR 0x84], [CHR 0xE2, CHR 0x80, CHR 0x85],
      [CHR 0xE2, CHR 0x80, CHR 0x86], [CHR 0xE2, CHR 0x80, CHR 0x87], [CHR 0xE2, CHR 0x80, CHR 0x88],
      [CHR 0xE2, CHR 0x80, CHR 0x89], [CHR 0xE2, CHR 0x80, CHR 0x8A],
      [CHR 0xE2, CHR 0x80, CHR 0xA8], [CHR 0xE2, CHR 0x80, CHR 0xA9], [CHR 0xE2, CHR 0x80, CHR 0xAF],
      [CHR 0xE2, CHR 0x81, CHR 0x9F],
      [CHR 0xE3, CHR 0x80, CHR 0x80],
      [CHR 0xEF, CHR 0xBB, CHR 0xBF]]"

definition starts_with :: "string \<Rightarrow> string \<Rightarrow> bool" where
  "starts_with s w = (w \<noteq> [] \<and> take (length w) s = w)"

function strip_start :: "string list \<Rightarrow> string \<Rightarrow> string" where
  "strip_start ws s =
     (case find (starts_with s) ws of
        None \<Rightarrow> s
      | Some w \<Rightarrow> strip_start ws (drop (length w) s))"
  by pat_completeness auto
termination
proof (relation "measure (\<lambda>(ws, s). length s)")
  show "wf (measure (\<lambda>(ws, s). length s))" by simp
next
  fix ws :: "string list" and s w :: string
  assume "find (starts_with s) ws = Some w"
  then have w: "w \<noteq> []" "take (length w) s = w"
    by (auto simp: find_Some_iff starts_with_def)
  then have "s \<noteq> []" by auto
  then show "((ws, drop (length w) s), (ws, s)) \<in> measure (\<lambda>(ws, s). length s)"
    using w(1) by simp
qed

declare strip_start.simps [simp del]

definition trim :: "string \<Rightarrow> string" where
  "trim s = rev (strip_start (map rev white_space) (rev (strip_start white_space s)))"

text \<open>
  \<^verbatim>\<open>encodeURIComponent\<close> on the UTF-8 bytes of a string: letters, digits and
  \<^verbatim>\<open>- _ . ! ~ * ' ( )\<close> stay, every other byte becomes \<^verbatim>\<open>%XX\<close>.
\<close>

definition unreserved :: "char \<Rightarrow> bool" where
  "unreserved c =
     (let n = (of_char c :: nat) in
        (48 \<le> n \<and> n \<le> 57) \<or> (65 \<le> n \<and> n \<le> 90) \<or> (97 \<le> n \<and> n \<le> 122)
        \<or> c \<in> set [CHR ''-'', CHR ''_'', CHR ''.'', CHR ''!'', CHR ''~'', CHR ''*'', CHR 0x27, CHR ''('', CHR '')''])"

definition hex_char :: "nat \<Rightarrow> char" where
  "hex_char d = ''0123456789ABCDEF'' ! d"

definition encodeURIComponent :: "string \<Rightarrow> string" where
  "encodeURIComponent s =
     concat (map (\<lambda>c. if unreserved c then [c]
                       else [CHR ''%'', hex_char ((of_char c :: nat) div 16), hex_char ((of_char c :: nat) mod 16)]) s)"

definition demo_user :: "int \<Rightarrow> string \<Rightarrow> string \<Rightarrow> json" where
  "demo_user now name email =
     JObj [(''uid'', JStr (''demo-'' @ show_int now)),
           (''displayName'', JStr name),
           (''email'', JStr email),
           (''photoURL'', JStr (''https://ui-avatars.com/api/?name='' @ encodeURIComponent name
                                 @ ''&background=4F46E5&color=fff''))]"

text \<open>
  \<open>nameInput\<close> and \<open>emailInput\<close> are the values of the two inputs of the login modal
  (\<open>None\<close>: the element is not there, \<^verbatim>\<open>nameInput?.value?.trim()\<close> is \<^verbatim>\<open>undefined\<close>); \<open>now\<close> is
  \<^verbatim>\<open>Date.now()\<close>.
\<close>

definition completeDemoLogin :: "state \<Rightarrow> int \<Rightarrow> string option \<Rightarrow> string option \<Rightarrow> state" where
  "completeDemoLogin st now nameInput emailInput =
     (case map_option trim nameInput of
        None \<Rightarrow> showAuthError ''Please enter your name'' st
      | Some name \<Rightarrow>
          if name = [] then showAuthError ''Please enter your name'' st
          else
            (case map_option trim emailInput of
               None \<Rightarrow> showAuthError ''Please enter your email'' st
             | Some email \<Rightarrow>
                 if email = [] then showAuthError ''Please enter your email'' st
                 else if CHR ''@'' \<notin> set email then showAuthError ''Please enter a valid email'' st
                 else
                   (let demoUser = demo_user now name email
                    in showAuthSuccess (''Welcome, '' @ name @ ''!'')
                         (handleAuthStateChange demoUser
                            (setItem ''volunteerConnectUser'' demoUser st)))))"

text \<open>
  \<^verbatim>\<open>signOut()\<close> of auth.js: with Firebase the hosted service is asked to sign out, in demo mode
  the stored user is removed and the sign-out notified.
\<close>

definition signOut :: "state \<Rightarrow> state" where
  "signOut st =
     (if firebaseAuth st then st\<lparr>requests := requests st @ [AuthSignOut]\<rparr>
      else handleAuthStateChange JNull (removeItem ''volunteerConnectUser'' st))"

section \<open>The application module: app.js\<close>

subsection \<open>Saving the application state\<close>

definition saveAppState :: "state \<Rightarrow> state" where
  "saveAppState st =
     setItem ''volunteerConnectState''
       (JObj [(''user'', appUser st),
              (''volunteers'', JArr (appVolunteers st)),
              (''opportunities'', JArr (appOpportunities st)),
              (''schedule'', JArr (appSchedule st)),
              (''hours'', JArr (appHours st)),
              (''currentPage'', JStr (appCurrentPage st))]) st"

subsection \<open>Hours tracking\<close>

text \<open>
  \<^verbatim>\<open>HoursTracker.logHours(entry)\<close>. \<open>gid\<close> is the string \<^verbatim>\<open>generateId()\<close> returns (a clock
  reading and a random number in base 36), \<open>now\<close> the clock reading of \<^verbatim>\<open>new Date()\<close>.
\<close>

definition logHours :: "state \<Rightarrow> string \<Rightarrow> int \<Rightarrow> json \<Rightarrow> json \<times> state" where
  "logHours st gid now entry =
     (let hoursEntry =
            JObj (AList.update ''verified'' (JBool False)
                   (AList.update ''logged'' (JStr (toISOString now))
                     (assign [(''id'', JStr gid)] (spread entry))))
      in (hoursEntry, saveAppState (st\<lparr>appHours := appHours st @ [hoursEntry]\<rparr>)))"

text \<open>
  A number of the source is an IEEE double; the numbers of this development are the integers
  among them. The sum of two of them is the exact sum rounded to the nearest double:
  unchanged up to \<open>2 ^ 53\<close> either side, and beyond that the nearest multiple of the power of
  two that leaves 53 significant bits, a tie going to the even one. Fractions, and sums
  beyond the largest double, are outside this development.
\<close>

function bit_length :: "int \<Rightarrow> nat" where
  "bit_length n = (if n \<le> 0 then 0 else Suc (bit_length (n div 2)))"
  by pat_completeness auto
termination
  by (relation "measure nat") auto

declare bit_length.simps [simp del]

definition round_double :: "int \<Rightarrow> int" where
  "round_double n =
     (if \<bar>n\<bar> \<le> 9007199254740992 then n
      else
        (let unit = 2 ^ (bit_length \<bar>n\<bar> - 53);
             q = \<bar>n\<bar> div unit;
             r = \<bar>n\<bar> mod unit;
             up = (unit < 2 * r \<or> (unit = 2 * r \<and> odd q))
         in sgn n * ((if up then q + 1 else q) * unit)))"

text \<open>
  The operator \<^verbatim>\<open>+\<close>: an array or object is first rendered as a string (a \<^verbatim>\<open>TypeError\<close>
  when it has no rendering); with a string on either side the two are concatenated, otherwise
  \<^verbatim>\<open>null\<close> and booleans count as numbers and the two are added.
\<close>

fun to_primitive :: "json \<Rightarrow> json" where
  "to_primitive (JArr xs) = JStr (to_str (JArr xs))"
| "to_primitive (JObj kv) = JStr (to_str (JObj kv))"
| "to_primitive v = v"

fun is_string :: "json \<Rightarrow> bool" where
  "is_string (JStr s) = True"
| "is_string v = False"

fun to_number :: "json \<Rightarrow> int" where
  "to_number (JNum n) = n"
| "to_number (JBool b) = (if b then 1 else 0)"
| "to_number v = 0"

definition js_add :: "json \<Rightarrow> json \<Rightarrow> error + json" where
  "js_add a b =
     (if \<not> renders a \<or> \<not> renders b then Inl TypeError
      else
        (let pa = to_primitive a; pb = to_primitive b in
           if is_string pa \<or> is_string pb then Inr (JStr (to_str pa @ to_str pb))
           else Inr (JNum (round_double (to_number pa + to_number pb)))))"

text \<open>\<^verbatim>\<open>hours.reduce((total, entry) => total + (entry.hours || 0), 0)\<close>, from the running total \<open>tot\<close>.\<close>

fun sum_hours :: "json list \<Rightarrow> json \<Rightarrow> error + json" where
  "sum_hours [] tot = Inr tot"
| "sum_hours (entry # rest) tot =
     (case get_prop entry ''hours'' of
        Inl e \<Rightarrow> Inl e
      | Inr v \<Rightarrow>
          (case js_add tot (js_or v (JNum 0)) of
             Inl e \<Rightarrow> Inl e
           | Inr tot' \<Rightarrow> sum_hours rest tot'))"

text \<open>
  The start of a period other than \<^verbatim>\<open>'all'\<close>; the \<^verbatim>\<open>switch\<close> has no default, so an unknown
  period leaves \<^verbatim>\<open>startDate\<close> undefined.
\<close>

definition period_start :: "runtime \<Rightarrow> int \<Rightarrow> string \<Rightarrow> int option" where
  "period_start rt now period =
     (if period = ''week'' then timeClip (now - 7 * 24 * 60 * 60 * 1000)
      else if period = ''month'' then timeClip (localMonthStart rt now)
      else if period = ''year'' then timeClip (localYearStart rt now)
      else None)"

text \<open>\<^verbatim>\<open>new Date(h.date) >= startDate\<close>: false when either side is no valid time.\<close>

definition since :: "runtime \<Rightarrow> int option \<Rightarrow> json \<Rightarrow> error + bool" where
  "since rt start h =
     (case get_prop h ''date'' of
        Inl e \<Rightarrow> Inl e
      | Inr d \<Rightarrow>
          (case newDate rt d of
             Inl e \<Rightarrow> Inl e
           | Inr t \<Rightarrow> Inr (case (t, start) of (Some t, Some s) \<Rightarrow> s \<le> t | _ \<Rightarrow> False)))"

definition getTotalHours :: "runtime \<Rightarrow> state \<Rightarrow> int \<Rightarrow> string \<Rightarrow> error + json" where
  "getTotalHours rt st now period =
     (if period \<noteq> ''all'' then
        (case filter_rows (since rt (period_start rt now period)) (appHours st) of
           Inl e \<Rightarrow> Inl e
         | Inr hours \<Rightarrow> sum_hours hours (JNum 0))
      else sum_hours (appHours st) (JNum 0))"

subsection \<open>Calendar export\<close>

text \<open>
  \<^verbatim>\<open>formatDateForICS(date)\<close>: \<^verbatim>\<open>toISOString\<close> throws a \<^verbatim>\<open>RangeError\<close> on an invalid date;
  \<^verbatim>\<open>replace(/[-:]/g, '')\<close> drops every hyphen and colon, \<^verbatim>\<open>split('.')[0]\<close> keeps what comes
  before the first full stop.
\<close>

definition formatDateForICS :: "runtime \<Rightarrow> jsval \<Rightarrow> error + string" where
  "formatDateForICS rt date =
     (case newDate rt date of
        Inl e \<Rightarrow> Inl e
      | Inr None \<Rightarrow> Inl RangeError
      | Inr (Some t) \<Rightarrow>
          Inr (takeWhile (\<lambda>c. c \<noteq> CHR ''.'')
                 (filter (\<lambda>c. c \<noteq> CHR ''-'' \<and> c \<noteq> CHR '':'') (toISOString t)) @ ''Z''))"

definition nl :: string where
  "nl = [CHR 0x0A]"

text \<open>
  The text one event adds to the calendar. The five interpolations are evaluated in the order
  of the source, and the first that throws ends the export.
\<close>

definition vevent :: "runtime \<Rightarrow> json \<Rightarrow> error + string" where
  "vevent rt event =
     (case get_prop event ''id'' of
        Inl e \<Rightarrow> Inl e
      | Inr i \<Rightarrow>
     (case to_string_val i of
        Inl e \<Rightarrow> Inl e
      | Inr uid \<Rightarrow>
     (case formatDateForICS rt (field event ''date'') of
        Inl e \<Rightarrow> Inl e
      | Inr dt \<Rightarrow>
     (case to_string_val (field event ''title'') of
        Inl e \<Rightarrow> Inl e
      | Inr title \<Rightarrow>
     (case to_string (js_or (field event ''description'') (JStr [])) of
        Inl e \<Rightarrow> Inl e
      | Inr description \<Rightarrow>
     (case to_string (js_or (field event ''location'') (JStr [])) of
        Inl e \<Rightarrow> Inl e
      | Inr location \<Rightarrow>
          Inr (''BEGIN:VEVENT'' @ nl
               @ ''UID:'' @ uid @ ''@volunteerconnect'' @ nl
               @ ''DTSTART:'' @ dt @ nl
               @ ''SUMMARY:'' @ title @ nl
               @ ''DESCRIPTION:'' @ description @ nl
               @ ''LOCATION:'' @ location @ nl
               @ ''END:VEVENT'' @ nl)))))))"

text \<open>\<^verbatim>\<open>AppState.schedule.forEach(event => { ics += ... })\<close>, from the text so far.\<close>

fun add_events :: "runtime \<Rightarrow> json list \<Rightarrow> string \<Rightarrow> error + string" where
  "add_events rt [] ics = Inr ics"
| "add_events rt (event # rest) ics =
     (case vevent rt event of
        Inl e \<Rightarrow> Inl e
      | Inr block \<Rightarrow> add_events rt rest (ics @ block))"

text \<open>
  \<^verbatim>\<open>ScheduleManager.exportToICS()\<close>: the result is the text handed to the browser as the
  download \<^verbatim>\<open>volunteer-schedule.ics\<close>.
\<close>

definition exportToICS :: "runtime \<Rightarrow> state \<Rightarrow> error + string" where
  "exportToICS rt st =
     (case add_events rt (appSchedule st)
             (''BEGIN:VCALENDAR'' @ nl @ ''VERSION:2.0'' @ nl @ ''PRODID:-//VolunteerConnect//EN'' @ nl) of
        Inl e \<Rightarrow> Inl e
      | Inr ics \<Rightarrow> Inr (ics @ ''END:VCALENDAR''))"

subsection \<open>Letter templates\<close>

text \<open>
  \<^verbatim>\<open>${ctx.k || 'd'}\<close> and \<^verbatim>\<open>${ctx.k ? `p${ctx.k}` : ''}\<close> inside a template literal, and a
  template as its lines. The four template functions give the text for a context that is not
  \<^verbatim>\<open>null\<close> and whose interpolated properties have a rendering; \<open>generateLetter\<close>, their only
  caller, raises the \<^verbatim>\<open>TypeError\<close> of every other context before it uses them.
\<close>

definition ph :: "json \<Rightarrow> string \<Rightarrow> string \<Rightarrow> string" where
  "ph ctx k d = to_str (js_or (field ctx k) (JStr d))"

definition opt_line :: "json \<Rightarrow> string \<Rightarrow> string \<Rightarrow> string" where
  "opt_line ctx k p = (if truthy_val (field ctx k) then p @ to_str_val (field ctx k) else [])"

fun join_lines :: "string list \<Rightarrow> string" where
  "join_lines [] = []"
| "join_lines [l] = l"
| "join_lines (l # m # ls) = l @ nl @ join_lines (m # ls)"

definition getApplicationTemplate :: "json \<Rightarrow> string" where
  "getApplicationTemplate ctx = join_lines
     [''Dear '' @ ph ctx ''recipientName'' ''Hiring Manager'' @ '','',
      [],
      ''I am writing to express my interest in volunteering with ''
        @ ph ctx ''organization'' ''your organization'' @ ''. ''
        @ ph ctx ''reason'' ''I am passionate about making a positive impact in my community.'',
      [],
      opt_line ctx ''experience'' ''I have experience in: '',
      [],
      ''I am available '' @ ph ctx ''availability'' ''on weekends and evenings''
        @ '' and am committed to contributing '' @ ph ctx ''hours'' ''several hours'' @ '' per week.'',
      [],
      opt_line ctx ''skills'' ''My relevant skills include: '',
      [],
      ''Thank you for considering my application. I look forward to the opportunity to contribute to your mission.'',
      [],
      ''Sincerely,'',
      ph ctx ''senderName'' ''[Your Name]'']"

definition getThankYouTemplate :: "json \<Rightarrow> string" where
  "getThankYouTemplate ctx = join_lines
     [''Dear '' @ ph ctx ''recipientName'' ''Team'' @ '','',
      [],
      ''I wanted to express my heartfelt gratitude for the opportunity to volunteer with ''
        @ ph ctx ''organization'' ''your organization'' @ ''.'',
      [],
      ph ctx ''experience'' ''The experience has been incredibly rewarding.'' @ '' '' @ ph ctx ''impact'' [],
      [],
      ''Thank you for your guidance and support throughout my time volunteering.'',
      [],
      ''With appreciation,'',
      ph ctx ''senderName'' ''[Your Name]'']"

definition getOutreachTemplate :: "json \<Rightarrow> string" where
  "getOutreachTemplate ctx = join_lines
     [''Subject: Partnership Opportunity - Volunteer Program'',
      [],
      ''Dear '' @ ph ctx ''recipientName'' ''Community Partner'' @ '','',
      [],
      ''I am reaching out on behalf of '' @ ph ctx ''organization'' ''our volunteer program''
        @ '' to explore potential collaboration opportunities.'',
      [],
      ph ctx ''purpose''
        ''We are looking to expand our volunteer initiatives and believe your organization would be an excellent partner.'',
      [],
      ph ctx ''benefits'' ''Together, we could make a significant impact in our community.'',
      [],
      ''Would you be available for a brief call to discuss this further?'',
      [],
      ''Best regards,'',
      ph ctx ''senderName'' ''[Your Name]'']"

definition getFollowUpTemplate :: "json \<Rightarrow> string" where
  "getFollowUpTemplate ctx = join_lines
     [''Dear '' @ ph ctx ''recipientName'' ''Volunteer Coordinator'' @ '','',
      [],
      ''I hope this message finds you well. I am following up on my ''
        @ ph ctx ''previousAction'' ''previous application/inquiry''
        @ '' regarding volunteer opportunities with '' @ ph ctx ''organization'' ''your organization'' @ ''.'',
      [],
      ph ctx ''additionalInfo'' ''I remain very interested in contributing to your mission.'',
      [],
      ''Please let me know if there are any updates or if you need any additional information from me.'',
      [],
      ''Thank you for your time.'',
      [],
      ''Best regards,'',
      ph ctx ''senderName'' ''[Your Name]'']"

text \<open>
  \<^verbatim>\<open>templates[type]\<close> reads the object literal \<^verbatim>\<open>templates\<close>: one of its four own properties
  or, through its prototype, a member of \<^verbatim>\<open>Object.prototype\<close> (a function, or the prototype
  object for \<^verbatim>\<open>__proto__\<close>; each is truthy), or \<^verbatim>\<open>undefined\<close>. The result of
  \<^verbatim>\<open>generateLetter\<close> is thus a text or such an inherited member.
\<close>

definition object_prototype_members :: "string list" where
  "object_prototype_members =
     [''constructor'', ''__defineGetter__'', ''__defineSetter__'', ''hasOwnProperty'',
      ''__lookupGetter__'', ''__lookupSetter__'', ''isPrototypeOf'', ''propertyIsEnumerable'',
      ''toString'', ''valueOf'', ''__proto__'', ''toLocaleString'']"

datatype letter = LetterText string | InheritedMember string

definition templates :: "json \<Rightarrow> (string \<times> string) list" where
  "templates ctx =
     [(''application'', getApplicationTemplate ctx),
      (''thankyou'', getThankYouTemplate ctx),
      (''outreach'', getOutreachTemplate ctx),
      (''followup'', getFollowUpTemplate ctx)]"

text \<open>
  The properties of the context the four templates interpolate. Each is interpolated only
  when truthy (\<^verbatim>\<open>ctx.k || 'd'\<close>, \<^verbatim>\<open>ctx.k ? ... : ''\<close>), and all four templates are built
  whatever the type asked for: one truthy property without a rendering makes
  \<^verbatim>\<open>generateLetter\<close> throw a \<^verbatim>\<open>TypeError\<close>.
\<close>

definition template_fields :: "string list" where
  "template_fields =
     [''recipientName'', ''organization'', ''reason'', ''experience'', ''availability'', ''hours'',
      ''skills'', ''senderName'', ''impact'', ''purpose'', ''benefits'', ''previousAction'',
      ''additionalInfo'']"

definition context_renders :: "json \<Rightarrow> bool" where
  "context_renders ctx = list_all (\<lambda>k. renders (js_or (field ctx k) (JStr []))) template_fields"

text \<open>
  \<^verbatim>\<open>generateLetter(type, context)\<close>. The prompt \<^verbatim>\<open>buildPrompt\<close> builds is not used. Building
  \<^verbatim>\<open>templates\<close> reads \<^verbatim>\<open>ctx.recipientName\<close>, a \<^verbatim>\<open>TypeError\<close> when the context is \<^verbatim>\<open>null\<close>;
  then \<^verbatim>\<open>templates[type] || templates.application\<close>.
\<close>

definition generateLetter :: "string \<Rightarrow> json \<Rightarrow> error + letter" where
  "generateLetter type_tag ctx =
     (if ctx = JNull then Inl TypeError
      else if \<not> context_renders ctx then Inl TypeError
      else
        Inr (case map_of (templates ctx) type_tag of
               Some t \<Rightarrow> LetterText (if t \<noteq> [] then t else getApplicationTemplate ctx)
             | None \<Rightarrow>
                 if type_tag \<in> set object_prototype_members then InheritedMember type_tag
                 else LetterText (getApplicationTemplate ctx)))"

section \<open>A browser session in local mode\<close>

text \<open>
  What a user does within one browser storage: a demo sign-in (with the clock reading and the
  two inputs), a sign-out through the data layer or through auth.js, and an hours entry
  added through the data layer (with its two clock readings). \<open>inserted\<close> lists the rows the
  inserts of a session create, in order.
\<close>

datatype session_op =
    OpSignIn int "string option" "string option"
  | OpDbSignOut
  | OpSignOut
  | OpAddHours int int json

fun step :: "state \<Rightarrow> session_op \<Rightarrow> state" where
  "step st (OpSignIn now nameInput emailInput) = completeDemoLogin st now nameInput emailInput"
| "step st OpDbSignOut = dbSignOut st"
| "step st OpSignOut = signOut st"
| "step st (OpAddHours now_id now entry) = snd (dbAddHoursEntry st now_id now entry)"

fun inserted :: "session_op list \<Rightarrow> json list" where
  "inserted [] = []"
| "inserted (OpAddHours now_id now entry # ops) = JObj (new_row now_id now entry) # inserted ops"
| "inserted (op # ops) = inserted ops"

fun is_insert :: "session_op \<Rightarrow> bool" where
  "is_insert (OpAddHours now_id now entry) = True"
| "is_insert op = False"

section \<open>What the backend is asked for\<close>

text \<open>
  The hosted backend is not part of the repository. \<open>passes\<close> says what a filter of a query
  asks of a row, and \<open>answers_as_asked\<close> that the rows answered to a select all pass its
  filters and are no more than a numeric limit it carries: the contract a query is written
  against.
\<close>

fun passes :: "runtime \<Rightarrow> qfilter \<Rightarrow> json \<Rightarrow> bool" where
  "passes rt (Eq c v) row = strict_eq (field row c) v"
| "passes rt (Gte c v) row = relGE rt (field row c) (Some v)"
| "passes rt (Lte c v) row = relLE rt (field row c) (Some v)"
| "passes rt (Contains c vs) row =
     (case field row c of Some (JArr xs) \<Rightarrow> set vs \<subseteq> set xs | _ \<Rightarrow> False)"

fun within_limit :: "jsval \<Rightarrow> json list \<Rightarrow> bool" where
  "within_limit (Some (JNum n)) rows = (int (length rows) \<le> n)"
| "within_limit lim rows = True"

fun answers_as_asked :: "runtime \<Rightarrow> request \<Rightarrow> json list \<Rightarrow> bool" where
  "answers_as_asked rt (Select table fs ord lim single) rows =
     (list_all (\<lambda>row. list_all (\<lambda>f. passes rt f row) fs) rows \<and> within_limit lim rows)"
| "answers_as_asked rt rq rows = True"

text \<open>What the fallback of the opportunities read returns: the snapshot's list, or the empty list.\<close>

definition snapshot_rows :: "state \<Rightarrow> json" where
  "snapshot_rows st =
     (case staticSnapshot st of None \<Rightarrow> JArr [] | Some d \<Rightarrow> js_or (field d ''opportunities'') (JArr []))"


text \<open>
  The schema of the hosted database (\<^verbatim>\<open>supabase_schema.sql\<close>) keeps one row per profile and
  sets \<^verbatim>\<open>updated_at\<close> in a trigger before every update. \<open>honours_update st table w fs\<close> is
  the contract an update is written against: when the backend accepts the update of the row
  of \<open>table\<close> that passes \<open>fs\<close> with the values \<open>w\<close>, the row it answers afterwards to the
  single-row select with the same filters is the row it answered before with \<open>w\<close> written
  over it, the column \<^verbatim>\<open>updated_at\<close> apart.
\<close>

definition honours_update :: "state \<Rightarrow> string \<Rightarrow> obj \<Rightarrow> qfilter list \<Rightarrow> bool" where
  "honours_update st table w fs =
     (\<not> truthy (snd (backend st (Update table w fs))) \<longrightarrow>
        (case served st (backend st) (Update table w fs) (Select table fs None None True) of
           (JObj row, err) \<Rightarrow>
             \<not> truthy err
             \<and> (\<forall>k. k \<noteq> ''updated_at'' \<longrightarrow>
                    map_of row k
                    = map_of (assign (spread (fst (backend st (Select table fs None None True)))) w) k)
         | (other, err) \<Rightarrow> False))"
section \<open>Reading a calendar text\<close>











section \<open>Sample inputs\<close>

text \<open>
  A runtime whose \<^verbatim>\<open>Date.parse\<close> knows two ISO strings, a browser in local mode with nothing
  stored, and three hours rows.
\<close>

definition sample_runtime :: runtime where
  "sample_runtime =
     \<lparr>dateParse = (\<lambda>s. if s = ''2024-02-15T09:00:00Z'' then Some 1707987600000
                        else if s = ''2024-03-01T18:30:00Z'' then Some 1709317800000 else None),
      relGE = (\<lambda>a b. True), relLE = (\<lambda>a b. True),
      localMonthStart = (\<lambda>now. now), localYearStart = (\<lambda>now. now)\<rparr>"

definition local_state :: state where
  "local_state =
     \<lparr>dbAvailable = False, sessionUser = JNull, backend = (\<lambda>rq. (JNull, JNull)),
      served = (\<lambda>b rq. b), staticSnapshot = None, firebaseAuth = False, localStorage = (\<lambda>key. None), requests = [],
      appUser = JNull, appVolunteers = [], appOpportunities = [], appSchedule = [], appHours = [],
      appCurrentPage = ''home'', dispatched = [], alerts = []\<rparr>"

definition hours_row :: "string \<Rightarrow> string \<Rightarrow> int \<Rightarrow> json" where
  "hours_row i org h = JObj [(''id'', JStr i), (''organization'', JStr org), (''hours'', JNum h)]"

definition three_rows :: "json list" where
  "three_rows = [hours_row ''1'' ''Food Bank'' 4, hours_row ''2'' ''Shelter'' 2, hours_row ''3'' ''Library'' 1]"

definition three_rows_state :: state where
  "three_rows_state = setItem ''volunteerHoursLog'' (JArr three_rows) local_state"

definition food_bank_entry :: json where
  "food_bank_entry =
     JObj [(''organization'', JStr ''Food Bank''), (''date'', JStr ''2024-02-15''), (''hours'', JNum 4)]"

definition sample_session :: "session_op list" where
  "sample_session =
     [OpSignIn 1707987600000 (Some ''Jane'') (Some ''jane@x.com''),
      OpAddHours 1707987600001 1707987600002 food_bank_entry,
      OpDbSignOut,
      OpSignIn 1707987700000 (Some ''Joe'') (Some ''joe@x.com''),
      OpAddHours 1707987700001 1707987700001 (JObj [(''organization'', JStr ''Shelter''), (''hours'', JNum 2)]),
      OpSignOut]"

text \<open>Remote mode: a signed-in user, and nobody signed in.\<close>

definition remote_state :: state where
  "remote_state =
     local_state\<lparr>dbAvailable := True,
                 sessionUser := JObj [(''id'', JStr ''user-1''), (''email'', JStr ''jane@x.com'')]\<rparr>"

definition remote_anonymous :: state where
  "remote_anonymous = local_state\<lparr>dbAvailable := True, sessionUser := JNull\<rparr>"

definition forged_row :: json where
  "forged_row =
     JObj [(''organization'', JStr ''Food Bank''), (''user_id'', JStr ''user-2''), (''hours'', JNum 4)]"

text \<open>A stored profile, and the update that renames its owner.\<close>

definition stored_profile :: json where
  "stored_profile =
     JObj [(''first_name'', JStr ''J''), (''city'', JStr ''Paris''),
           (''updated_at'', JStr ''2024-01-01T00:00:00.000Z'')]"

definition profile_state :: state where
  "profile_state = setItem ''volunteerProfile'' stored_profile local_state"

definition rename_update :: json where
  "rename_update = JObj [(''first_name'', JStr ''Jane'')]"

text \<open>
  A backend that holds one profile row: it answers a select with the row and an update with
  the row after the update, stamped with its own time, and from then on holds that row.
\<close>

definition server_row_update :: "json \<Rightarrow> obj \<Rightarrow> json" where
  "server_row_update row w =
     JObj (AList.update ''updated_at'' (JStr ''2024-02-15T09:00:00.120Z'') (assign (spread row) w))"

definition profile_backend :: "json \<Rightarrow> request \<Rightarrow> json \<times> json" where
  "profile_backend row rq =
     (case rq of
        Select table fs ord lim single \<Rightarrow> (row, JNull)
      | Update table w fs \<Rightarrow> (server_row_update row w, JNull)
      | _ \<Rightarrow> (JNull, JNull))"

definition profile_served :: "(request \<Rightarrow> json \<times> json) \<Rightarrow> request \<Rightarrow> request \<Rightarrow> json \<times> json" where
  "profile_served b rq = (case rq of Update table w fs \<Rightarrow> profile_backend (fst (b rq)) | _ \<Rightarrow> b)"

definition remote_profile_state :: state where
  "remote_profile_state =
     remote_state\<lparr>backend := profile_backend stored_profile, served := profile_served\<rparr>"

text \<open>
  Remote mode with nobody signed in, once with a backend that answers every select with two
  active opportunities, once with a backend that fails while the bundled snapshot holds one.
\<close>

definition opportunity :: "string \<Rightarrow> string \<Rightarrow> json" where
  "opportunity title cause =
     JObj [(''title'', JStr title), (''is_active'', JBool True),
           (''cause_areas'', JArr [JStr cause]), (''is_virtual'', JBool False)]"

definition serving_state :: state where
  "serving_state =
     remote_anonymous\<lparr>backend :=
       (\<lambda>rq. (JArr [opportunity ''Food sorting'' ''hunger'', opportunity ''Meal delivery'' ''hunger''],
               JNull))\<rparr>"

definition failing_state :: state where
  "failing_state =
     remote_anonymous\<lparr>backend := (\<lambda>rq. (JNull, JObj [(''message'', JStr ''Failed to fetch'')])),
                       staticSnapshot :=
                         Some (JObj [(''opportunities'', JArr [opportunity ''Park cleanup'' ''environment''])])\<rparr>"

definition hunger_filters :: opp_filters where
  "hunger_filters = \<lparr>causeArea = Some (JStr ''hunger''), isVirtual = Some (JBool False), limit = Some (JNum 5)\<rparr>"

text \<open>Scheduled events: two that export, one without a date, one whose description breaks the line.\<close>

definition shift_event :: json where
  "shift_event =
     JObj [(''id'', JStr ''lsn2x4k0abc''), (''title'', JStr ''Volunteer Shift''),
           (''date'', JStr ''2024-02-15T09:00:00Z''), (''location'', JStr ''123 Main St'')]"





definition schedule_of :: "json list \<Rightarrow> state" where
  "schedule_of events = local_state\<lparr>appSchedule := events\<rparr>"


section \<open>Properties\<close>

subsection \<open>The calendar arithmetic on known instants\<close>

lemma iso_known_instants:
  "toISOString 0 = ''1970-01-01T00:00:00.000Z''"
  "toISOString (-1) = ''1969-12-31T23:59:59.999Z''"
  "toISOString 951782400000 = ''2000-02-29T00:00:00.000Z''"
  "toISOString 4107542400000 = ''2100-03-01T00:00:00.000Z''"
  "toISOString 253402300799999 = ''9999-12-31T23:59:59.999Z''"
  "toISOString (-62167219200000) = ''0000-01-01T00:00:00.000Z''"
  "toISOString (-62167219200001) = ''-000001-12-31T23:59:59.999Z''"
  "toISOString 8640000000000000 = ''+275760-09-13T00:00:00.000Z''"
  by code_simp+

subsection \<open>Storage and listing\<close>

lemma stored_or_setItem:
  "stored_or (setItem key v st) key' d = (if key' = key then v else stored_or st key' d)"
  by (simp add: stored_or_def setItem_def)

lemma available_setItem: "isDatabaseAvailable (setItem key v st) = isDatabaseAvailable st"
  by (simp add: isDatabaseAvailable_def setItem_def)

lemma list_local_no_filters:
  "\<not> isDatabaseAvailable st \<Longrightarrow>
   dbGetHoursLog rt st no_filters = (Inr (stored_or st ''volunteerHoursLog'' (JArr [])), st)"
  by (simp add: dbGetHoursLog_def no_filters_def filter_step_def)

lemma filter_rows_id_differs:
  "JNull \<notin> set L \<Longrightarrow>
   filter_rows (id_differs i) L = Inr (filter (\<lambda>h. \<not> strict_eq (field h ''id'') i) L)"
proof (induction L)
  case Nil
  then show ?case by simp
next
  case (Cons h hs)
  then show ?case by (cases h) (simp_all add: id_differs_def field_def)
qed

subsection \<open>Deleting an hours entry in local mode\<close>

text \<open>
  C6. In local mode, with a stored hours log \<open>L\<close> (the absent key counts as the empty log)
  whose rows are not \<^verbatim>\<open>null\<close>: \<^verbatim>\<open>deleteHoursEntry(i)\<close> succeeds, the listing that follows
  returns exactly the rows of \<open>L\<close> whose \<^verbatim>\<open>id\<close> is not strictly equal to \<open>i\<close>, in their order
  and as they were, and when no row has id \<open>i\<close> the stored log is still \<open>L\<close>.
\<close>

theorem delete_hours_local:
  assumes local: "\<not> isDatabaseAvailable st"
    and log: "stored_or st ''volunteerHoursLog'' (JArr []) = JArr L"
    and rows: "JNull \<notin> set L"
  shows "fst (dbDeleteHoursEntry st i) = Inr ()
       \<and> dbGetHoursLog rt (snd (dbDeleteHoursEntry st i)) no_filters
           = (Inr (JArr (filter (\<lambda>h. \<not> strict_eq (field h ''id'') i) L)), snd (dbDeleteHoursEntry st i))
       \<and> ((\<forall>h \<in> set L. \<not> strict_eq (field h ''id'') i) \<longrightarrow>
            stored_or (snd (dbDeleteHoursEntry st i)) ''volunteerHoursLog'' (JArr []) = JArr L)"
proof -
  let ?kept = "filter (\<lambda>h. \<not> strict_eq (field h ''id'') i) L"
  have del: "dbDeleteHoursEntry st i = (Inr (), setItem ''volunteerHoursLog'' (JArr ?kept) st)"
    using local log rows
    by (simp add: dbDeleteHoursEntry_def local_delete_def as_array_def filter_rows_id_differs)
  have loc': "\<not> isDatabaseAvailable (setItem ''volunteerHoursLog'' (JArr ?kept) st)"
    using local by (simp add: available_setItem)
  have noop: "(\<forall>h \<in> set L. \<not> strict_eq (field h ''id'') i) \<longrightarrow> ?kept = L"
    by (simp add: filter_id_conv)
  show ?thesis
    using noop by (simp add: del list_local_no_filters [OF loc'] stored_or_setItem)
qed

theorem delete_hours_local_witness:
  "\<not> isDatabaseAvailable three_rows_state
   \<and> stored_or three_rows_state ''volunteerHoursLog'' (JArr []) = JArr three_rows
   \<and> JNull \<notin> set three_rows
   \<and> fst (dbGetHoursLog sample_runtime
            (snd (dbDeleteHoursEntry three_rows_state (Some (JStr ''2'')))) no_filters)
       = Inr (JArr [hours_row ''1'' ''Food Bank'' 4, hours_row ''3'' ''Library'' 1])
   \<and> list_all (\<lambda>h. \<not> strict_eq (field h ''id'') (Some (JStr ''9''))) three_rows
   \<and> stored_or (snd (dbDeleteHoursEntry three_rows_state (Some (JStr ''9''))))
        ''volunteerHoursLog'' (JArr []) = JArr three_rows"
proof -
  have a: "\<not> isDatabaseAvailable three_rows_state"
    by (simp add: three_rows_state_def setItem_def isDatabaseAvailable_def local_state_def)
  have b: "stored_or three_rows_state ''volunteerHoursLog'' (JArr []) = JArr three_rows"
    by (simp add: three_rows_state_def stored_or_setItem)
  have c: "JNull \<notin> set three_rows"
    by (simp add: three_rows_def hours_row_def)
  have d: "\<forall>h \<in> set three_rows. \<not> strict_eq (field h ''id'') (Some (JStr ''9''))"
    by (simp add: three_rows_def hours_row_def field_def)
  have e: "filter (\<lambda>h. \<not> strict_eq (field h ''id'') (Some (JStr ''2''))) three_rows
           = [hours_row ''1'' ''Food Bank'' 4, hours_row ''3'' ''Library'' 1]"
    by (simp add: three_rows_def hours_row_def field_def)
  show ?thesis
    using a b c d e
      delete_hours_local [OF a b c, of "Some (JStr ''2'')" sample_runtime]
      delete_hours_local [OF a b c, of "Some (JStr ''9'')" sample_runtime]
    by (simp add: list_all_iff)
qed

subsection \<open>Hours rows across sign-ins and sign-outs\<close>

lemma handle_keeps:
  "dbAvailable (handleAuthStateChange u st) = dbAvailable st"
  "localStorage (handleAuthStateChange u st) = localStorage st"
  by (simp_all add: handleAuthStateChange_def)

lemma alert_keeps:
  "dbAvailable (showAuthError m st) = dbAvailable st"
  "localStorage (showAuthError m st) = localStorage st"
  "dbAvailable (showAuthSuccess m st) = dbAvailable st"
  "localStorage (showAuthSuccess m st) = localStorage st"
  by (simp_all add: showAuthError_def showAuthSuccess_def)

lemma step_local:
  assumes "\<not> isDatabaseAvailable st"
  shows "\<not> isDatabaseAvailable (step st op)"
  using assms
  by (cases op)
     (auto simp: completeDemoLogin_def dbSignOut_def signOut_def dbAddHoursEntry_def local_add_def
        handle_keeps alert_keeps Let_def isDatabaseAvailable_def setItem_def removeItem_def
        split: option.splits sum.splits)

lemma step_log:
  assumes "\<not> isDatabaseAvailable st"
    and "stored_or st ''volunteerHoursLog'' (JArr []) = JArr L"
  shows "stored_or (step st op) ''volunteerHoursLog'' (JArr []) = JArr (L @ inserted [op])"
  using assms
  by (cases op)
     (auto simp: completeDemoLogin_def dbSignOut_def signOut_def dbAddHoursEntry_def local_add_def
        handle_keeps alert_keeps Let_def stored_or_def setItem_def removeItem_def as_array_def
        split: option.splits sum.splits)

lemma inserted_append: "inserted (a @ b) = inserted a @ inserted b"
  by (induction a rule: inserted.induct) simp_all

lemma length_inserted: "length (inserted ops) = length (filter is_insert ops)"
  by (induction ops rule: inserted.induct) simp_all

lemma run_log:
  assumes "\<not> isDatabaseAvailable st"
    and "stored_or st ''volunteerHoursLog'' (JArr []) = JArr L"
  shows "\<not> isDatabaseAvailable (foldl step st ops)
       \<and> stored_or (foldl step st ops) ''volunteerHoursLog'' (JArr []) = JArr (L @ inserted ops)"
  using assms
proof (induction ops arbitrary: st L)
  case Nil
  then show ?case by simp
next
  case (Cons op ops)
  have a: "\<not> isDatabaseAvailable (step st op)" using Cons.prems(1) by (rule step_local)
  have b: "stored_or (step st op) ''volunteerHoursLog'' (JArr []) = JArr (L @ inserted [op])"
    using Cons.prems by (rule step_log)
  have c: "inserted (op # ops) = inserted [op] @ inserted ops"
    using inserted_append [of "[op]" ops] by simp
  show ?case using Cons.IH [OF a b] c by simp
qed

text \<open>
  C5. In local mode, from a stored hours log \<open>L\<close> (empty when nothing was stored), after any
  sequence of demo sign-ins, sign-outs (of either module) and hours inserts, the unfiltered
  listing returns \<open>L\<close> followed by exactly the rows the inserts created, in order: with \<open>L\<close>
  empty, \<open>N\<close> inserts give exactly \<open>N\<close> rows. No sign-out removes a row and no row appears
  that was not inserted.
\<close>

theorem hours_survive_sessions:
  assumes local: "\<not> isDatabaseAvailable st"
    and log: "stored_or st ''volunteerHoursLog'' (JArr []) = JArr L"
  shows "fst (dbGetHoursLog rt (foldl step st ops) no_filters) = Inr (JArr (L @ inserted ops))
       \<and> length (L @ inserted ops) = length L + length (filter is_insert ops)"
  using run_log [OF local log, of ops]
  by (simp add: list_local_no_filters length_inserted)

theorem hours_survive_sessions_witness:
  "\<not> isDatabaseAvailable local_state
   \<and> stored_or local_state ''volunteerHoursLog'' (JArr []) = JArr []
   \<and> length (filter is_insert sample_session) = 2
   \<and> fst (dbGetHoursLog sample_runtime (foldl step local_state sample_session) no_filters)
       = Inr (JArr [JObj (new_row 1707987600001 1707987600002 food_bank_entry),
                    JObj (new_row 1707987700001 1707987700001
                            (JObj [(''organization'', JStr ''Shelter''), (''hours'', JNum 2)]))])"
proof -
  have a: "\<not> isDatabaseAvailable local_state"
    by (simp add: isDatabaseAvailable_def local_state_def)
  have b: "stored_or local_state ''volunteerHoursLog'' (JArr []) = JArr []"
    by (simp add: stored_or_def local_state_def)
  have c: "inserted sample_session
           = [JObj (new_row 1707987600001 1707987600002 food_bank_entry),
              JObj (new_row 1707987700001 1707987700001
                      (JObj [(''organization'', JStr ''Shelter''), (''hours'', JNum 2)]))]"
    by (simp add: sample_session_def)
  have d: "length (filter is_insert sample_session) = 2"
    by (simp add: sample_session_def)
  show ?thesis
    using a b d hours_survive_sessions [OF a b, of sample_runtime sample_session]
    by (simp add: c)
qed

subsection \<open>Remote mode: who the requests are made for\<close>

lemma remote_write_anonymous:
  "isDatabaseAvailable st \<Longrightarrow> \<not> truthy (sessionUser st) \<Longrightarrow>
   remote_write st mk = (Inl NotAuthenticated, st\<lparr>requests := requests st @ [AuthGetUser]\<rparr>)"
  by (simp add: remote_write_def dbGetCurrentUser_def)

lemma remote_list_anonymous:
  "isDatabaseAvailable st \<Longrightarrow> \<not> truthy (sessionUser st) \<Longrightarrow>
   remote_list st mk = (Inr (JArr []), st\<lparr>requests := requests st @ [AuthGetUser]\<rparr>)"
  by (simp add: remote_list_def dbGetCurrentUser_def)

lemma remote_write_requests:
  "isDatabaseAvailable st \<Longrightarrow> truthy (sessionUser st) \<Longrightarrow>
   requests (snd (remote_write st mk)) = requests st @ [AuthGetUser, mk (user_id_of (sessionUser st))]"
  by (simp add: remote_write_def dbGetCurrentUser_def send_def split: prod.splits)

lemma update_only_value:
  assumes "distinct (map fst al)" and "(k, v) \<in> set (AList.update k u al)"
  shows "v = u"
proof -
  have "distinct (map fst (AList.update k u al))"
    using assms(1) by (rule distinct_update)
  then have "map_of (AList.update k u al) k = Some v"
    using assms(2) by simp
  then show ?thesis by (simp add: update_conv')
qed

text \<open>
  C1. In remote mode, with a signed-in user whose id is \<open>uid\<close>, and for every row \<open>r\<close> the
  caller supplies (an object holds each key once): \<^verbatim>\<open>addHoursEntry\<close>, \<^verbatim>\<open>addEvent\<close> and
  \<^verbatim>\<open>saveLetter\<close> each send, after the user lookup, exactly one insert; its payload is \<open>r\<close> with
  \<^verbatim>\<open>user_id\<close> set to \<open>uid\<close>, so \<^verbatim>\<open>user_id\<close> reads \<open>uid\<close> and no other value stands under
  \<^verbatim>\<open>user_id\<close>, whatever \<open>r\<close> held there.
\<close>

theorem insert_stamps_current_user:
  assumes remote: "isDatabaseAvailable st"
    and user: "truthy (sessionUser st)"
    and uid: "user_id_of (sessionUser st) = Some uid"
    and row: "distinct (map fst (spread r))"
  shows "requests (snd (dbAddHoursEntry st now_id now r))
           = requests st @ [AuthGetUser, Insert ''hours_log'' (AList.update ''user_id'' uid (spread r))]
       \<and> requests (snd (dbAddEvent st now_id now r))
           = requests st @ [AuthGetUser, Insert ''events'' (AList.update ''user_id'' uid (spread r))]
       \<and> requests (snd (dbSaveLetter st now_id now r))
           = requests st @ [AuthGetUser, Insert ''letters'' (AList.update ''user_id'' uid (spread r))]
       \<and> map_of (AList.update ''user_id'' uid (spread r)) ''user_id'' = Some uid
       \<and> (\<forall>v. (''user_id'', v) \<in> set (AList.update ''user_id'' uid (spread r)) \<longrightarrow> v = uid)"
proof -
  have "\<forall>v. (''user_id'', v) \<in> set (AList.update ''user_id'' uid (spread r)) \<longrightarrow> v = uid"
    using update_only_value [OF row] by blast
  then show ?thesis
    using remote user uid
    by (simp add: dbAddHoursEntry_def dbAddEvent_def dbSaveLetter_def remote_write_requests
        stamp_def update_conv')
qed

theorem insert_stamps_current_user_witness:
  "isDatabaseAvailable remote_state
   \<and> truthy (sessionUser remote_state)
   \<and> user_id_of (sessionUser remote_state) = Some (JStr ''user-1'')
   \<and> distinct (map fst (spread forged_row))
   \<and> map_of (spread forged_row) ''user_id'' = Some (JStr ''user-2'')
   \<and> requests (snd (dbAddHoursEntry remote_state 1 2 forged_row))
       = [AuthGetUser,
          Insert ''hours_log''
            [(''organization'', JStr ''Food Bank''), (''user_id'', JStr ''user-1''), (''hours'', JNum 4)]]"
proof -
  have a: "isDatabaseAvailable remote_state"
    by (simp add: isDatabaseAvailable_def remote_state_def)
  have b: "truthy (sessionUser remote_state)"
    by (simp add: remote_state_def)
  have c: "user_id_of (sessionUser remote_state) = Some (JStr ''user-1'')"
    by (simp add: remote_state_def user_id_of_def field_def)
  have d: "distinct (map fst (spread forged_row))"
    by (simp add: forged_row_def)
  have e: "requests remote_state = []"
    by (simp add: remote_state_def local_state_def)
  show ?thesis
    using a b c d e insert_stamps_current_user [OF a b c d, of 1 2]
    by (simp add: forged_row_def)
qed

text \<open>
  C2, as the claim states it, fails for the list operations: in remote mode with nobody
  signed in, \<^verbatim>\<open>getHoursLog\<close> returns the empty list; it does not fail with the
  unauthenticated condition.
\<close>

theorem anonymous_listing_counterexample:
  "isDatabaseAvailable remote_anonymous
   \<and> \<not> truthy (sessionUser remote_anonymous)
   \<and> fst (dbGetHoursLog sample_runtime remote_anonymous no_filters) = Inr (JArr [])
   \<and> fst (dbGetHoursLog sample_runtime remote_anonymous no_filters) \<noteq> Inl NotAuthenticated"
  by (simp add: remote_anonymous_def isDatabaseAvailable_def dbGetHoursLog_def remote_list_def
      dbGetCurrentUser_def)

text \<open>
  C2, amended. In remote mode with nobody signed in, for all arguments: the operations that
  write (\<^verbatim>\<open>updateProfile\<close>, the two deletes, the three inserts) fail with \<open>NotAuthenticated\<close>;
  the three list operations return the empty list and \<^verbatim>\<open>getProfile\<close> returns \<^verbatim>\<open>null\<close>. In
  every case the only request sent is the user lookup, and nothing else of the state changes:
  no data request, so no mutation, reaches the network.
\<close>

theorem anonymous_remote_calls:
  assumes remote: "isDatabaseAvailable st"
    and nobody: "\<not> truthy (sessionUser st)"
  shows "dbUpdateProfile st now x = (Inl NotAuthenticated, st\<lparr>requests := requests st @ [AuthGetUser]\<rparr>)
       \<and> dbDeleteHoursEntry st i = (Inl NotAuthenticated, st\<lparr>requests := requests st @ [AuthGetUser]\<rparr>)
       \<and> dbDeleteEvent st i = (Inl NotAuthenticated, st\<lparr>requests := requests st @ [AuthGetUser]\<rparr>)
       \<and> dbAddHoursEntry st now_id now x = (Inl NotAuthenticated, st\<lparr>requests := requests st @ [AuthGetUser]\<rparr>)
       \<and> dbAddEvent st now_id now x = (Inl NotAuthenticated, st\<lparr>requests := requests st @ [AuthGetUser]\<rparr>)
       \<and> dbSaveLetter st now_id now x = (Inl NotAuthenticated, st\<lparr>requests := requests st @ [AuthGetUser]\<rparr>)
       \<and> dbGetHoursLog rt st hf = (Inr (JArr []), st\<lparr>requests := requests st @ [AuthGetUser]\<rparr>)
       \<and> dbGetEvents rt st now ef = (Inr (JArr []), st\<lparr>requests := requests st @ [AuthGetUser]\<rparr>)
       \<and> dbGetLetters st lf = (Inr (JArr []), st\<lparr>requests := requests st @ [AuthGetUser]\<rparr>)
       \<and> dbGetProfile st = (JNull, st\<lparr>requests := requests st @ [AuthGetUser]\<rparr>)"
proof -
  have w: "\<And>mk. remote_write st mk = (Inl NotAuthenticated, st\<lparr>requests := requests st @ [AuthGetUser]\<rparr>)"
    using remote nobody by (rule remote_write_anonymous)
  have l: "\<And>mk. remote_list st mk = (Inr (JArr []), st\<lparr>requests := requests st @ [AuthGetUser]\<rparr>)"
    using remote nobody by (rule remote_list_anonymous)
  have p: "dbGetProfile st = (JNull, st\<lparr>requests := requests st @ [AuthGetUser]\<rparr>)"
    using remote nobody by (simp add: dbGetProfile_def dbGetCurrentUser_def)
  show ?thesis
    using remote
    by (simp add: dbUpdateProfile_def dbDeleteHoursEntry_def dbDeleteEvent_def dbAddHoursEntry_def
        dbAddEvent_def dbSaveLetter_def dbGetHoursLog_def dbGetEvents_def dbGetLetters_def
        remote_delete_def w l p)
qed

theorem anonymous_remote_calls_witness:
  "isDatabaseAvailable remote_anonymous
   \<and> \<not> truthy (sessionUser remote_anonymous)
   \<and> fst (dbDeleteHoursEntry remote_anonymous (Some (JStr ''1''))) = Inl NotAuthenticated
   \<and> requests (snd (dbDeleteHoursEntry remote_anonymous (Some (JStr ''1'')))) = [AuthGetUser]
   \<and> fst (dbUpdateProfile remote_anonymous 1707987600000 (JObj [(''first_name'', JStr ''Jane'')]))
       = Inl NotAuthenticated
   \<and> fst (dbGetLetters remote_anonymous \<lparr>letterType = Some (JStr ''application'')\<rparr>) = Inr (JArr [])"
proof -
  have a: "isDatabaseAvailable remote_anonymous"
    by (simp add: isDatabaseAvailable_def remote_anonymous_def)
  have b: "\<not> truthy (sessionUser remote_anonymous)"
    by (simp add: remote_anonymous_def)
  have e: "requests remote_anonymous = []"
    by (simp add: remote_anonymous_def local_state_def)
  show ?thesis
    using a b e
      anonymous_remote_calls [OF a b, of 1707987600000 "JObj [(''first_name'', JStr ''Jane'')]"
        "Some (JStr ''1'')" 0 sample_runtime no_filters "\<lparr>upcoming = None\<rparr>"
        "\<lparr>letterType = Some (JStr ''application'')\<rparr>"]
    by simp
qed

subsection \<open>Updating the profile\<close>

lemma map_of_fold_update:
  "distinct (map fst b) \<Longrightarrow>
   map_of (fold (\<lambda>(k, v). AList.update k v) b a) = map_of a ++ map_of b"
proof (induction b arbitrary: a)
  case Nil
  then show ?case by simp
next
  case (Cons kv b)
  obtain k v where kv: "kv = (k, v)" by (cases kv)
  have fresh: "map_of b k = None"
    using Cons.prems kv by (simp add: map_of_eq_None_iff)
  have rest: "distinct (map fst b)"
    using Cons.prems by simp
  have "map_of (fold (\<lambda>(k, v). AList.update k v) (kv # b) a)
        = map_of (AList.update k v a) ++ map_of b"
    using Cons.IH [OF rest, of "AList.update k v a"] kv by simp
  also have "\<dots> = (map_of a)(k \<mapsto> v) ++ map_of b"
    by (simp only: update_conv')
  also have "\<dots> = map_of a ++ map_of (kv # b)"
  proof (rule ext)
    fix k'
    show "((map_of a)(k \<mapsto> v) ++ map_of b) k' = (map_of a ++ map_of (kv # b)) k'"
      using fresh kv by (cases "map_of b k'") (auto simp: map_add_def)
  qed
  finally show ?case .
qed

lemma map_of_assign:
  "distinct (map fst b) \<Longrightarrow> map_of (assign a b) = map_of a ++ map_of b"
  by (simp add: assign_def map_of_fold_update)

lemma merged_profile_lookup:
  assumes "distinct (map fst (spread x))"
  shows "map_of (merged_profile p x now) k =
           (if k = ''updated_at'' then Some (JStr (toISOString now))
            else (case map_of (spread x) k of Some v \<Rightarrow> Some v | None \<Rightarrow> map_of (spread p) k))"
  using assms
  by (simp add: merged_profile_def update_conv' map_of_assign map_add_def)

lemma merged_profile_default:
  "merged_profile (stored_or st key (JObj [])) x now = merged_profile (stored_or st key JNull) x now"
  by (simp add: merged_profile_def stored_or_def split: option.splits)

lemma iso_sample: "toISOString 1707987600000 = ''2024-02-15T09:00:00.000Z''"
  by code_simp

text \<open>
  C3, as the claim states it, fails on the timestamp: two profile updates made at the same
  clock reading (here in local mode, from an empty store) leave \<^verbatim>\<open>updated_at\<close> where it
  was, not strictly greater.
\<close>

theorem update_profile_same_instant_counterexample:
  "field (fst (dbGetProfile (snd (dbUpdateProfile local_state 1707987600000
            (JObj [(''first_name'', JStr ''Jane'')]))))) ''updated_at''
     = Some (JStr ''2024-02-15T09:00:00.000Z'')
   \<and> field (fst (dbGetProfile (snd (dbUpdateProfile
              (snd (dbUpdateProfile local_state 1707987600000 (JObj [(''first_name'', JStr ''Jane'')])))
              1707987600000 (JObj [(''city'', JStr ''Paris'')]))))) ''updated_at''
     = Some (JStr ''2024-02-15T09:00:00.000Z'')"
  by (simp add: dbUpdateProfile_def dbGetProfile_def isDatabaseAvailable_def local_state_def Let_def
      setItem_def stored_or_def merged_profile_def assign_def field_def iso_sample)

lemma profile_before_update:
  assumes "isDatabaseAvailable st" and "fst (dbGetProfile st) \<noteq> JNull"
  shows "truthy (sessionUser st)"
    and "\<not> truthy (snd (backend st (Select ''profiles'' [Eq ''id'' (user_id_of (sessionUser st))] None None True)))"
    and "fst (dbGetProfile st)
         = fst (backend st (Select ''profiles'' [Eq ''id'' (user_id_of (sessionUser st))] None None True))"
  using assms
  by (auto simp: dbGetProfile_def dbGetCurrentUser_def send_def split: prod.splits if_splits)

lemma update_profile_remote:
  assumes "isDatabaseAvailable st" and "truthy (sessionUser st)"
  shows "dbUpdateProfile st now x =
           (let upd = Update ''profiles'' (AList.update ''updated_at'' (JStr (toISOString now)) (spread x))
                        [Eq ''id'' (user_id_of (sessionUser st))];
                st' = st\<lparr>requests := requests st @ [AuthGetUser, upd],
                         backend := served st (backend st) upd\<rparr>
            in if truthy (snd (backend st upd)) then (Inl (BackendError (snd (backend st upd))), st')
               else (Inr (fst (backend st upd)), st'))"
  using assms
  by (simp add: dbUpdateProfile_def remote_write_def dbGetCurrentUser_def send_def Let_def
      split: prod.splits)

lemma profile_after_update:
  assumes avail: "isDatabaseAvailable st"
    and contract: "honours_update st ''profiles'' w [Eq ''id'' (user_id_of (sessionUser st))]"
    and payload: "w = AList.update ''updated_at'' (JStr (toISOString now)) (spread x)"
    and prior: "fst (dbGetProfile st) \<noteq> JNull"
    and completes: "fst (dbUpdateProfile st now x) = Inr d"
  shows "\<exists>row. fst (dbGetProfile (snd (dbUpdateProfile st now x))) = JObj row
           \<and> (\<forall>k. k \<noteq> ''updated_at'' \<longrightarrow>
                  map_of row k = map_of (assign (spread (fst (dbGetProfile st))) w) k)"
proof -
  let ?sel = "Select ''profiles'' [Eq ''id'' (user_id_of (sessionUser st))] None None True"
  let ?upd = "Update ''profiles'' w [Eq ''id'' (user_id_of (sessionUser st))]"
  let ?st' = "st\<lparr>requests := requests st @ [AuthGetUser, ?upd], backend := served st (backend st) ?upd\<rparr>"
  note before = profile_before_update [OF avail prior]
  have accepted: "\<not> truthy (snd (backend st ?upd))"
    using completes by (simp add: update_profile_remote [OF avail before(1)] Let_def payload split: if_splits)
  then have after: "snd (dbUpdateProfile st now x) = ?st'"
    by (simp add: update_profile_remote [OF avail before(1)] Let_def payload)
  obtain row err where answer: "served st (backend st) ?upd ?sel = (JObj row, err)"
    and fine: "\<not> truthy err"
    and merged: "\<forall>k. k \<noteq> ''updated_at'' \<longrightarrow> map_of row k = map_of (assign (spread (fst (backend st ?sel))) w) k"
    using contract accepted
    by (auto simp: honours_update_def split: prod.splits json.splits)
  have "fst (dbGetProfile ?st') = JObj row"
    using avail before(1) answer fine
    by (simp add: dbGetProfile_def dbGetCurrentUser_def send_def isDatabaseAvailable_def)
  then show ?thesis
    using after merged before(3) by simp
qed

lemma payload_lookup:
  assumes "distinct (map fst (spread x))" and "k \<noteq> ''updated_at''"
  shows "map_of (assign p (AList.update ''updated_at'' u (spread x))) k
         = (case map_of (spread x) k of Some v \<Rightarrow> Some v | None \<Rightarrow> map_of p k)"
proof -
  have "distinct (map fst (AList.update ''updated_at'' u (spread x)))"
    using assms(1) by (rule distinct_update)
  then show ?thesis
    using assms(2) by (simp add: map_of_assign map_add_def update_conv')
qed

text \<open>
  C3, amended. For every update object \<open>x\<close> (an object holds each key once) and clock reading
  \<open>now\<close>, in either mode, after \<^verbatim>\<open>updateProfile(x)\<close> completes \<^verbatim>\<open>getProfile()\<close> returns the
  prior profile \<open>p\<close> merged with \<open>x\<close>: every field other than \<^verbatim>\<open>updated_at\<close> is that of \<open>x\<close>
  where \<open>x\<close> has it and that of \<open>p\<close> otherwise. In local mode \<^verbatim>\<open>updated_at\<close> is the ISO
  rendering of \<open>now\<close>, whatever \<open>p\<close> or \<open>x\<close> held there, and \<^verbatim>\<open>updateProfile\<close> returns the same
  object. In remote mode the call sends, after the user lookup, one update of \<^verbatim>\<open>profiles\<close>
  with \<open>x\<close> and that \<^verbatim>\<open>updated_at\<close> as payload, restricted to the row whose \<^verbatim>\<open>id\<close> is the
  user's; the merge is then that of a backend that honours the update of a profile that
  could be read before, and \<^verbatim>\<open>updated_at\<close> is the backend's.
\<close>

theorem update_profile_merges:
  assumes fields: "distinct (map fst (spread x))"
  shows "(\<not> isDatabaseAvailable st \<longrightarrow>
            fst (dbUpdateProfile st now x) = Inr (JObj (merged_profile (fst (dbGetProfile st)) x now))
          \<and> fst (dbGetProfile (snd (dbUpdateProfile st now x)))
              = JObj (merged_profile (fst (dbGetProfile st)) x now))
       \<and> (\<forall>p k. map_of (merged_profile p x now) k =
                   (if k = ''updated_at'' then Some (JStr (toISOString now))
                    else (case map_of (spread x) k of Some v \<Rightarrow> Some v | None \<Rightarrow> map_of (spread p) k)))
       \<and> (isDatabaseAvailable st \<and> truthy (sessionUser st) \<longrightarrow>
            requests (snd (dbUpdateProfile st now x))
              = requests st @ [AuthGetUser,
                  Update ''profiles'' (AList.update ''updated_at'' (JStr (toISOString now)) (spread x))
                    [Eq ''id'' (user_id_of (sessionUser st))]])
       \<and> (isDatabaseAvailable st
            \<and> honours_update st ''profiles''
                  (AList.update ''updated_at'' (JStr (toISOString now)) (spread x))
                  [Eq ''id'' (user_id_of (sessionUser st))]
            \<and> fst (dbGetProfile st) \<noteq> JNull
            \<and> (\<exists>d. fst (dbUpdateProfile st now x) = Inr d) \<longrightarrow>
            (\<exists>row. fst (dbGetProfile (snd (dbUpdateProfile st now x))) = JObj row
               \<and> (\<forall>k. k \<noteq> ''updated_at'' \<longrightarrow>
                      map_of row k =
                        (case map_of (spread x) k of
                           Some v \<Rightarrow> Some v
                         | None \<Rightarrow> map_of (spread (fst (dbGetProfile st))) k))))"
proof -
  have loc: "\<not> isDatabaseAvailable st \<longrightarrow>
            fst (dbUpdateProfile st now x) = Inr (JObj (merged_profile (fst (dbGetProfile st)) x now))
          \<and> fst (dbGetProfile (snd (dbUpdateProfile st now x)))
              = JObj (merged_profile (fst (dbGetProfile st)) x now)"
    by (simp add: dbUpdateProfile_def dbGetProfile_def Let_def merged_profile_default
        available_setItem stored_or_setItem)
  have rem: "isDatabaseAvailable st \<and> truthy (sessionUser st) \<longrightarrow>
            requests (snd (dbUpdateProfile st now x))
              = requests st @ [AuthGetUser,
                  Update ''profiles'' (AList.update ''updated_at'' (JStr (toISOString now)) (spread x))
                    [Eq ''id'' (user_id_of (sessionUser st))]]"
    by (simp add: dbUpdateProfile_def remote_write_requests)
  have merged: "isDatabaseAvailable st
            \<and> honours_update st ''profiles''
                  (AList.update ''updated_at'' (JStr (toISOString now)) (spread x))
                  [Eq ''id'' (user_id_of (sessionUser st))]
            \<and> fst (dbGetProfile st) \<noteq> JNull
            \<and> (\<exists>d. fst (dbUpdateProfile st now x) = Inr d) \<longrightarrow>
            (\<exists>row. fst (dbGetProfile (snd (dbUpdateProfile st now x))) = JObj row
               \<and> (\<forall>k. k \<noteq> ''updated_at'' \<longrightarrow>
                      map_of row k =
                        (case map_of (spread x) k of
                           Some v \<Rightarrow> Some v
                         | None \<Rightarrow> map_of (spread (fst (dbGetProfile st))) k)))"
  proof (intro impI, elim conjE exE)
    fix d
    assume "isDatabaseAvailable st"
      and "honours_update st ''profiles''
             (AList.update ''updated_at'' (JStr (toISOString now)) (spread x))
             [Eq ''id'' (user_id_of (sessionUser st))]"
      and "fst (dbGetProfile st) \<noteq> JNull"
      and "fst (dbUpdateProfile st now x) = Inr d"
    then obtain row where "fst (dbGetProfile (snd (dbUpdateProfile st now x))) = JObj row"
      and "\<forall>k. k \<noteq> ''updated_at'' \<longrightarrow>
             map_of row k
             = map_of (assign (spread (fst (dbGetProfile st)))
                        (AList.update ''updated_at'' (JStr (toISOString now)) (spread x))) k"
      using profile_after_update [OF _ _ refl, of st now x d] by blast
    then show "\<exists>row. fst (dbGetProfile (snd (dbUpdateProfile st now x))) = JObj row
               \<and> (\<forall>k. k \<noteq> ''updated_at'' \<longrightarrow>
                      map_of row k =
                        (case map_of (spread x) k of
                           Some v \<Rightarrow> Some v
                         | None \<Rightarrow> map_of (spread (fst (dbGetProfile st))) k))"
      by (simp add: payload_lookup [OF fields])
  qed
  show ?thesis
    using loc rem merged merged_profile_lookup [OF fields] by blast
qed

theorem update_profile_merges_witness:
  "distinct (map fst (spread rename_update))
   \<and> \<not> isDatabaseAvailable profile_state
   \<and> fst (dbGetProfile profile_state) = stored_profile
   \<and> fst (dbGetProfile (snd (dbUpdateProfile profile_state 1707987600000 rename_update)))
       = JObj [(''first_name'', JStr ''Jane''), (''city'', JStr ''Paris''),
               (''updated_at'', JStr ''2024-02-15T09:00:00.000Z'')]
   \<and> isDatabaseAvailable remote_profile_state
   \<and> truthy (sessionUser remote_profile_state)
   \<and> requests (snd (dbUpdateProfile remote_profile_state 1707987600000 rename_update))
       = [AuthGetUser,
          Update ''profiles''
            [(''first_name'', JStr ''Jane''), (''updated_at'', JStr ''2024-02-15T09:00:00.000Z'')]
            [Eq ''id'' (Some (JStr ''user-1''))]]
   \<and> honours_update remote_profile_state ''profiles''
         [(''first_name'', JStr ''Jane''), (''updated_at'', JStr ''2024-02-15T09:00:00.000Z'')]
         [Eq ''id'' (Some (JStr ''user-1''))]
   \<and> fst (dbGetProfile remote_profile_state) = stored_profile
   \<and> stored_profile \<noteq> JNull
   \<and> fst (dbUpdateProfile remote_profile_state 1707987600000 rename_update)
       = Inr (JObj [(''first_name'', JStr ''Jane''), (''city'', JStr ''Paris''),
                    (''updated_at'', JStr ''2024-02-15T09:00:00.120Z'')])
   \<and> fst (dbGetProfile (snd (dbUpdateProfile remote_profile_state 1707987600000 rename_update)))
       = JObj [(''first_name'', JStr ''Jane''), (''city'', JStr ''Paris''),
               (''updated_at'', JStr ''2024-02-15T09:00:00.120Z'')]"
proof -
  let ?w = "[(''first_name'', JStr ''Jane''), (''updated_at'', JStr ''2024-02-15T09:00:00.000Z'')]"
  let ?fs = "[Eq ''id'' (Some (JStr ''user-1''))]"
  let ?after = "JObj [(''first_name'', JStr ''Jane''), (''city'', JStr ''Paris''),
                      (''updated_at'', JStr ''2024-02-15T09:00:00.120Z'')]"
  have a: "distinct (map fst (spread rename_update))"
    by (simp add: rename_update_def)
  have b: "\<not> isDatabaseAvailable profile_state"
    by (simp add: profile_state_def setItem_def isDatabaseAvailable_def local_state_def)
  have c: "fst (dbGetProfile profile_state) = stored_profile"
    using b by (simp add: dbGetProfile_def profile_state_def stored_or_setItem)
  have d: "merged_profile stored_profile rename_update 1707987600000
           = [(''first_name'', JStr ''Jane''), (''city'', JStr ''Paris''),
              (''updated_at'', JStr ''2024-02-15T09:00:00.000Z'')]"
    by (simp add: merged_profile_def stored_profile_def rename_update_def assign_def iso_sample)
  have e: "isDatabaseAvailable remote_profile_state"
    by (simp add: isDatabaseAvailable_def remote_profile_state_def remote_state_def)
  have f: "truthy (sessionUser remote_profile_state)"
    by (simp add: remote_profile_state_def remote_state_def)
  have g: "user_id_of (sessionUser remote_profile_state) = Some (JStr ''user-1'')"
    by (simp add: remote_profile_state_def remote_state_def user_id_of_def field_def)
  have h: "requests remote_profile_state = []"
    by (simp add: remote_profile_state_def remote_state_def local_state_def)
  have i: "backend remote_profile_state = profile_backend stored_profile"
    "served remote_profile_state = profile_served"
    by (simp_all add: remote_profile_state_def)
  have j: "server_row_update stored_profile ?w = ?after"
    by (simp add: server_row_update_def stored_profile_def assign_def)
  have k: "honours_update remote_profile_state ''profiles'' ?w ?fs"
    by (simp add: honours_update_def i profile_backend_def profile_served_def server_row_update_def
        update_conv')
  have l: "fst (dbGetProfile remote_profile_state) = stored_profile"
    using e f by (simp add: dbGetProfile_def dbGetCurrentUser_def send_def i profile_backend_def)
  have m: "stored_profile \<noteq> JNull"
    by (simp add: stored_profile_def)
  have n: "dbUpdateProfile remote_profile_state 1707987600000 rename_update
           = (Inr ?after,
              remote_profile_state\<lparr>requests := [AuthGetUser, Update ''profiles'' ?w ?fs],
                                    backend := profile_backend ?after\<rparr>)"
    by (simp add: update_profile_remote [OF e f] g h i Let_def rename_update_def iso_sample
        profile_backend_def profile_served_def j)
  have o: "fst (dbGetProfile (snd (dbUpdateProfile remote_profile_state 1707987600000 rename_update)))
           = ?after"
    using e f
    by (simp add: n dbGetProfile_def dbGetCurrentUser_def send_def isDatabaseAvailable_def
        profile_backend_def)
  have p: "fst (dbUpdateProfile remote_profile_state 1707987600000 rename_update) = Inr ?after"
    by (simp add: n)
  show ?thesis
    using a b c d e f g h k l m o p
      update_profile_merges [OF a, of profile_state 1707987600000]
      update_profile_merges [OF a, of remote_profile_state 1707987600000]
    by (simp add: rename_update_def iso_sample)
qed

subsection \<open>Logging hours and their total\<close>

lemma sum_samples:
  "js_add (JNum 0) (JNum 4) = Inr (JNum 4)"
  "js_add (JNum 9007199254740992) (JNum 1) = Inr (JNum 9007199254740992)"
  "js_add (JNum 9007199254740992) (JNum 3) = Inr (JNum 9007199254740996)"
  "js_add (JNum 4) (JStr ''2'') = Inr (JStr ''42'')"
  "js_add (JNum 4) (JObj [(''toString'', JNull)]) = Inl TypeError"
  by code_simp+

lemma log_hours_total:
  assumes "appHours st = []"
  shows "getTotalHours rt (snd (logHours st gid now food_bank_entry)) now' ''all'' = Inr (JNum 4)"
  using assms
  by (simp add: getTotalHours_def logHours_def saveAppState_def setItem_def Let_def
      food_bank_entry_def assign_def update_conv' js_or_def js_add_def round_double_def)

lemma add_hours_entry_local:
  assumes "\<not> isDatabaseAvailable st" and "localStorage st ''volunteerHoursLog'' = None"
  shows "dbAddHoursEntry st now_id now entry
         = (Inr (JObj (new_row now_id now entry)),
            setItem ''volunteerHoursLog'' (JArr [JObj (new_row now_id now entry)]) st)"
  using assms
  by (simp add: dbAddHoursEntry_def local_add_def stored_or_def as_array_def Let_def)

lemma hours_log_unfiltered:
  assumes "\<not> isDatabaseAvailable st"
  shows "fst (dbGetHoursLog rt st no_filters) = Inr (stored_or st ''volunteerHoursLog'' (JArr []))"
  using assms
  by (simp add: dbGetHoursLog_def no_filters_def filter_step_def)

text \<open>
  C4, as the claim states it, fails for the insert of the data layer. In local mode, with no
  hours entry in \<^verbatim>\<open>AppState.hours\<close> and none stored, \<^verbatim>\<open>addHoursEntry\<close> of the entry returns the
  new row and \<^verbatim>\<open>getHoursLog()\<close> lists it, and \<^verbatim>\<open>getTotalHours('all')\<close> still returns 0.
\<close>

theorem add_hours_entry_total_counterexample:
  "\<not> isDatabaseAvailable local_state
   \<and> appHours local_state = []
   \<and> fst (dbGetHoursLog sample_runtime local_state no_filters) = Inr (JArr [])
   \<and> fst (dbAddHoursEntry local_state 1707987600000 1707987600000 food_bank_entry)
       = Inr (JObj [(''organization'', JStr ''Food Bank''), (''date'', JStr ''2024-02-15''),
                    (''hours'', JNum 4), (''id'', JStr ''1707987600000''),
                    (''created_at'', JStr ''2024-02-15T09:00:00.000Z'')])
   \<and> fst (dbGetHoursLog sample_runtime
              (snd (dbAddHoursEntry local_state 1707987600000 1707987600000 food_bank_entry)) no_filters)
       = Inr (JArr [JObj [(''organization'', JStr ''Food Bank''), (''date'', JStr ''2024-02-15''),
                          (''hours'', JNum 4), (''id'', JStr ''1707987600000''),
                          (''created_at'', JStr ''2024-02-15T09:00:00.000Z'')]])
   \<and> getTotalHours sample_runtime
        (snd (dbAddHoursEntry local_state 1707987600000 1707987600000 food_bank_entry))
        1707987600001 ''all''
       = Inr (JNum 0)"
proof -
  have a: "\<not> isDatabaseAvailable local_state"
    by (simp add: isDatabaseAvailable_def local_state_def)
  have b: "localStorage local_state ''volunteerHoursLog'' = None"
    by (simp add: local_state_def)
  have c: "appHours local_state = []"
    by (simp add: local_state_def)
  have d: "show_int 1707987600000 = ''1707987600000''"
    by code_simp
  have e: "new_row 1707987600000 1707987600000 food_bank_entry
           = [(''organization'', JStr ''Food Bank''), (''date'', JStr ''2024-02-15''),
              (''hours'', JNum 4), (''id'', JStr ''1707987600000''),
              (''created_at'', JStr ''2024-02-15T09:00:00.000Z'')]"
    by (simp add: new_row_def food_bank_entry_def d iso_sample)
  have f: "\<not> isDatabaseAvailable (setItem key v local_state)" for key v
    using a by (simp add: available_setItem)
  have g: "fst (dbGetHoursLog sample_runtime local_state no_filters) = Inr (JArr [])"
    using b by (simp add: hours_log_unfiltered [OF a] stored_or_def)
  have h: "fst (dbGetHoursLog sample_runtime
                 (snd (dbAddHoursEntry local_state 1707987600000 1707987600000 food_bank_entry)) no_filters)
           = Inr (JArr [JObj (new_row 1707987600000 1707987600000 food_bank_entry)])"
    by (simp add: add_hours_entry_local [OF a b] hours_log_unfiltered [OF f] stored_or_setItem)
  have i: "getTotalHours sample_runtime
             (snd (dbAddHoursEntry local_state 1707987600000 1707987600000 food_bank_entry))
             1707987600001 ''all''
           = Inr (JNum 0)"
    using c by (simp add: add_hours_entry_local [OF a b] getTotalHours_def setItem_def)
  have j: "fst (dbAddHoursEntry local_state 1707987600000 1707987600000 food_bank_entry)
           = Inr (JObj (new_row 1707987600000 1707987600000 food_bank_entry))"
    by (simp add: add_hours_entry_local [OF a b])
  show ?thesis
    using a c g h i j by (simp only: e) simp
qed

text \<open>
  C4, amended. In local mode, from a state with no hours entry in \<^verbatim>\<open>AppState.hours\<close> and none
  stored: after \<^verbatim>\<open>HoursTracker.logHours\<close> of the entry
  \<^verbatim>\<open>{organization: "Food Bank", date: "2024-02-15", hours: 4}\<close>, \<^verbatim>\<open>getTotalHours('all')\<close>
  returns 4; after the data layer's \<^verbatim>\<open>addHoursEntry\<close> of it instead, the entry is stored with
  an id and a creation time, \<^verbatim>\<open>getHoursLog()\<close> lists it, and \<^verbatim>\<open>getTotalHours('all')\<close> returns 0.
\<close>

theorem insert_then_total:
  assumes local_mode: "\<not> isDatabaseAvailable st"
    and no_hours: "appHours st = []"
    and none_stored: "localStorage st ''volunteerHoursLog'' = None"
  shows "getTotalHours rt (snd (logHours st gid now food_bank_entry)) now' ''all'' = Inr (JNum 4)
       \<and> fst (dbAddHoursEntry st now_id now food_bank_entry)
           = Inr (JObj (new_row now_id now food_bank_entry))
       \<and> fst (dbGetHoursLog rt (snd (dbAddHoursEntry st now_id now food_bank_entry)) no_filters)
           = Inr (JArr [JObj (new_row now_id now food_bank_entry)])
       \<and> getTotalHours rt (snd (dbAddHoursEntry st now_id now food_bank_entry)) now' ''all''
           = Inr (JNum 0)"
proof -
  have after: "\<not> isDatabaseAvailable (setItem key v st)" for key v
    using local_mode by (simp add: available_setItem)
  have listed: "fst (dbGetHoursLog rt (snd (dbAddHoursEntry st now_id now food_bank_entry)) no_filters)
                = Inr (JArr [JObj (new_row now_id now food_bank_entry)])"
    by (simp add: add_hours_entry_local [OF local_mode none_stored] hours_log_unfiltered [OF after]
        stored_or_setItem)
  have tot: "getTotalHours rt (snd (dbAddHoursEntry st now_id now food_bank_entry)) now' ''all''
             = Inr (JNum 0)"
    using no_hours
    by (simp add: add_hours_entry_local [OF local_mode none_stored] getTotalHours_def setItem_def)
  show ?thesis
    using log_hours_total [OF no_hours] listed tot
    by (simp add: add_hours_entry_local [OF local_mode none_stored])
qed

theorem insert_then_total_witness:
  "\<not> isDatabaseAvailable local_state
   \<and> appHours local_state = []
   \<and> localStorage local_state ''volunteerHoursLog'' = None
   \<and> getTotalHours sample_runtime
        (snd (logHours local_state ''lsn2x4k0abc'' 1707987600000 food_bank_entry)) 1707987600001 ''all''
       = Inr (JNum 4)
   \<and> getTotalHours sample_runtime
        (snd (dbAddHoursEntry local_state 1707987600000 1707987600000 food_bank_entry))
        1707987600001 ''all''
       = Inr (JNum 0)"
proof -
  have a: "\<not> isDatabaseAvailable local_state"
    by (simp add: isDatabaseAvailable_def local_state_def)
  have b: "appHours local_state = []"
    by (simp add: local_state_def)
  have c: "localStorage local_state ''volunteerHoursLog'' = None"
    by (simp add: local_state_def)
  show ?thesis
    using a b c
      insert_then_total [OF a b c, of sample_runtime "''lsn2x4k0abc''" 1707987600000 1707987600001
        1707987600000]
    by simp
qed

text \<open>
  In local mode the data layer's own insert \<^verbatim>\<open>addHoursEntry\<close> writes the stored hours log and
  leaves \<^verbatim>\<open>AppState.hours\<close>, which \<^verbatim>\<open>getTotalHours\<close> sums, as it was: the total does not
  change.
\<close>

theorem data_layer_insert_leaves_total:
  assumes "\<not> isDatabaseAvailable st"
  shows "appHours (snd (dbAddHoursEntry st now_id now entry)) = appHours st
       \<and> getTotalHours rt (snd (dbAddHoursEntry st now_id now entry)) now' period
           = getTotalHours rt st now' period"
  using assms
  by (simp add: dbAddHoursEntry_def local_add_def setItem_def Let_def getTotalHours_def
      split: sum.splits)

theorem data_layer_insert_leaves_total_witness:
  "\<not> isDatabaseAvailable local_state
   \<and> fst (dbAddHoursEntry local_state 1707987600000 1707987600000 food_bank_entry)
       = Inr (JObj (new_row 1707987600000 1707987600000 food_bank_entry))
   \<and> getTotalHours sample_runtime
        (snd (dbAddHoursEntry local_state 1707987600000 1707987600000 food_bank_entry))
        1707987600001 ''all''
       = Inr (JNum 0)"
proof -
  have a: "\<not> isDatabaseAvailable local_state"
    by (simp add: isDatabaseAvailable_def local_state_def)
  have b: "getTotalHours sample_runtime local_state 1707987600001 ''all'' = Inr (JNum 0)"
    by (simp add: getTotalHours_def local_state_def)
  have c: "fst (dbAddHoursEntry local_state 1707987600000 1707987600000 food_bank_entry)
           = Inr (JObj (new_row 1707987600000 1707987600000 food_bank_entry))"
    using a by (simp add: dbAddHoursEntry_def local_add_def stored_or_def local_state_def
        as_array_def Let_def)
  show ?thesis
    using a b c
      data_layer_insert_leaves_total [OF a, of 1707987600000 1707987600000 food_bank_entry
        sample_runtime 1707987600001 "''all''"]
    by simp
qed

subsection \<open>Demo sign-in\<close>

lemma set_strip_start: "set (strip_start ws s) \<subseteq> set s"
proof (induction ws s rule: strip_start.induct)
  case (1 ws s)
  show ?case
  proof (cases "find (starts_with s) ws")
    case None
    then show ?thesis by (simp add: strip_start.simps [of ws s])
  next
    case (Some w)
    have "set (strip_start ws (drop (length w) s)) \<subseteq> set (drop (length w) s)"
      using "1.IH" Some by simp
    also have "\<dots> \<subseteq> set s"
      by (rule set_drop_subset)
    finally show ?thesis
      using Some by (simp add: strip_start.simps [of ws s])
  qed
qed

lemma strip_start_Nil: "strip_start ws [] = []"
proof -
  have "find (starts_with []) ws = None"
    by (simp add: find_None_iff starts_with_def)
  then show ?thesis
    by (simp add: strip_start.simps [of ws "[]"])
qed

lemma set_trim: "set (trim s) \<subseteq> set s"
proof -
  have "set (trim s) = set (strip_start (map rev white_space) (rev (strip_start white_space s)))"
    by (simp add: trim_def)
  also have "\<dots> \<subseteq> set (rev (strip_start white_space s))"
    by (rule set_strip_start)
  also have "\<dots> = set (strip_start white_space s)"
    by simp
  also have "\<dots> \<subseteq> set s"
    by (rule set_strip_start)
  finally show ?thesis .
qed

lemma trim_Nil: "trim [] = []"
  by (simp add: trim_def strip_start_Nil)

lemma trim_samples:
  "trim '' Jane '' = ''Jane''" "trim ''jane@x.com'' = ''jane@x.com''" "trim ''Jane'' = ''Jane''"
  "trim ''jane.x.com'' = ''jane.x.com''"
  "trim [CHR 0xC2, CHR 0xA0] = []"
  "trim ([CHR 0xE3, CHR 0x80, CHR 0x80] @ ''Jane'' @ [CHR 0x09, CHR 0xEF, CHR 0xBB, CHR 0xBF]) = ''Jane''"
  by code_simp+

lemma trim_nonempty: "trim s \<noteq> [] \<Longrightarrow> s \<noteq> []"
  by (auto simp: trim_Nil)

lemma rejected_frame:
  "localStorage (showAuthError m st) = localStorage st"
  "dispatched (showAuthError m st) = dispatched st"
  "appUser (showAuthError m st) = appUser st"
  "alerts (showAuthError m st) = alerts st @ [AuthError m]"
  by (simp_all add: showAuthError_def)

lemma demo_login_rejects:
  assumes "\<not> (\<exists>n e. nameInput = Some n \<and> emailInput = Some e
               \<and> trim n \<noteq> [] \<and> trim e \<noteq> [] \<and> CHR ''@'' \<in> set (trim e))"
  shows "\<exists>m. completeDemoLogin st now nameInput emailInput = showAuthError m st"
  using assms
  by (cases nameInput; cases emailInput) (auto simp: completeDemoLogin_def)

lemma demo_login_accepts:
  assumes "trim n \<noteq> []" and "trim e \<noteq> []" and "CHR ''@'' \<in> set (trim e)"
  shows "completeDemoLogin st now (Some n) (Some e)
         = showAuthSuccess (''Welcome, '' @ trim n @ ''!'')
             (handleAuthStateChange (demo_user now (trim n) (trim e))
                (setItem ''volunteerConnectUser'' (demo_user now (trim n) (trim e)) st))"
  using assms by (simp add: completeDemoLogin_def Let_def)

lemma malformed_is_rejected:
  assumes "nameInput = None \<or> nameInput = Some [] \<or> emailInput = None \<or> emailInput = Some []
           \<or> (\<exists>e. emailInput = Some e \<and> CHR ''@'' \<notin> set e)"
  shows "\<not> (\<exists>n e. nameInput = Some n \<and> emailInput = Some e
               \<and> trim n \<noteq> [] \<and> trim e \<noteq> [] \<and> CHR ''@'' \<in> set (trim e))"
  using assms set_trim by (auto simp: trim_Nil)

text \<open>
  C7. A demo sign-in whose input is malformed (the name or the email missing or empty, or the
  email without an \<^verbatim>\<open>@\<close>) shows an error message and changes nothing else: the storage,
  the notifications sent and the session object are as before. The storage or the
  notifications change only when both fields are non-empty and the email contains \<^verbatim>\<open>@\<close>;
  and when both fields, trimmed, are non-empty and the trimmed email contains \<^verbatim>\<open>@\<close>, the
  demo user is stored under \<^verbatim>\<open>volunteerConnectUser\<close> and one signed-in notification carrying
  it is sent.
\<close>

theorem demo_login_validation:
  "((nameInput = None \<or> nameInput = Some [] \<or> emailInput = None \<or> emailInput = Some []
       \<or> (\<exists>e. emailInput = Some e \<and> CHR ''@'' \<notin> set e)) \<longrightarrow>
      (\<exists>m. alerts (completeDemoLogin st now nameInput emailInput) = alerts st @ [AuthError m])
      \<and> localStorage (completeDemoLogin st now nameInput emailInput) = localStorage st
      \<and> dispatched (completeDemoLogin st now nameInput emailInput) = dispatched st
      \<and> appUser (completeDemoLogin st now nameInput emailInput) = appUser st)
   \<and> ((localStorage (completeDemoLogin st now nameInput emailInput) \<noteq> localStorage st
        \<or> dispatched (completeDemoLogin st now nameInput emailInput) \<noteq> dispatched st) \<longrightarrow>
       (\<exists>n e. nameInput = Some n \<and> emailInput = Some e \<and> n \<noteq> [] \<and> e \<noteq> [] \<and> CHR ''@'' \<in> set e))
   \<and> (\<forall>n e. nameInput = Some n \<and> emailInput = Some e
          \<and> trim n \<noteq> [] \<and> trim e \<noteq> [] \<and> CHR ''@'' \<in> set (trim e) \<longrightarrow>
        localStorage (completeDemoLogin st now nameInput emailInput) ''volunteerConnectUser''
          = Some (demo_user now (trim n) (trim e))
        \<and> dispatched (completeDemoLogin st now nameInput emailInput)
          = dispatched st @ [UserSignedIn (demo_user now (trim n) (trim e))])"
proof (intro conjI impI allI)
  assume bad: "nameInput = None \<or> nameInput = Some [] \<or> emailInput = None \<or> emailInput = Some []
       \<or> (\<exists>e. emailInput = Some e \<and> CHR ''@'' \<notin> set e)"
  obtain m where m: "completeDemoLogin st now nameInput emailInput = showAuthError m st"
    using demo_login_rejects [OF malformed_is_rejected [OF bad]] by blast
  show "\<exists>m. alerts (completeDemoLogin st now nameInput emailInput) = alerts st @ [AuthError m]"
    using m by (auto simp: rejected_frame)
  show "localStorage (completeDemoLogin st now nameInput emailInput) = localStorage st"
    using m by (simp add: rejected_frame)
  show "dispatched (completeDemoLogin st now nameInput emailInput) = dispatched st"
    using m by (simp add: rejected_frame)
  show "appUser (completeDemoLogin st now nameInput emailInput) = appUser st"
    using m by (simp add: rejected_frame)
next
  assume changed: "localStorage (completeDemoLogin st now nameInput emailInput) \<noteq> localStorage st
        \<or> dispatched (completeDemoLogin st now nameInput emailInput) \<noteq> dispatched st"
  have "\<exists>n e. nameInput = Some n \<and> emailInput = Some e
               \<and> trim n \<noteq> [] \<and> trim e \<noteq> [] \<and> CHR ''@'' \<in> set (trim e)"
  proof (rule ccontr)
    assume "\<not> ?thesis"
    then obtain m where "completeDemoLogin st now nameInput emailInput = showAuthError m st"
      using demo_login_rejects by blast
    then show False using changed by (simp add: rejected_frame)
  qed
  then show "\<exists>n e. nameInput = Some n \<and> emailInput = Some e \<and> n \<noteq> [] \<and> e \<noteq> [] \<and> CHR ''@'' \<in> set e"
    using set_trim trim_nonempty by blast
next
  fix n e
  assume ok: "nameInput = Some n \<and> emailInput = Some e
          \<and> trim n \<noteq> [] \<and> trim e \<noteq> [] \<and> CHR ''@'' \<in> set (trim e)"
  have run: "completeDemoLogin st now nameInput emailInput
         = showAuthSuccess (''Welcome, '' @ trim n @ ''!'')
             (handleAuthStateChange (demo_user now (trim n) (trim e))
                (setItem ''volunteerConnectUser'' (demo_user now (trim n) (trim e)) st))"
    using ok demo_login_accepts by simp
  have user: "truthy (demo_user now (trim n) (trim e))"
    by (simp add: demo_user_def)
  show "localStorage (completeDemoLogin st now nameInput emailInput) ''volunteerConnectUser''
          = Some (demo_user now (trim n) (trim e))"
    by (simp add: run showAuthSuccess_def handleAuthStateChange_def user setItem_def)
  show "dispatched (completeDemoLogin st now nameInput emailInput)
          = dispatched st @ [UserSignedIn (demo_user now (trim n) (trim e))]"
    by (simp add: run showAuthSuccess_def handleAuthStateChange_def user setItem_def)
qed

theorem demo_login_validation_witness:
  "alerts (completeDemoLogin local_state 1707987600000 (Some ''Jane'') (Some ''jane.x.com''))
     = [AuthError ''Please enter a valid email'']
   \<and> localStorage (completeDemoLogin local_state 1707987600000 (Some ''Jane'') (Some ''jane.x.com''))
       = localStorage local_state
   \<and> dispatched (completeDemoLogin local_state 1707987600000 (Some ''Jane'') (Some ''jane.x.com'')) = []
   \<and> trim '' Jane '' = ''Jane''
   \<and> localStorage (completeDemoLogin local_state 1707987600000 (Some '' Jane '') (Some ''jane@x.com''))
         ''volunteerConnectUser''
       = Some (demo_user 1707987600000 ''Jane'' ''jane@x.com'')
   \<and> dispatched (completeDemoLogin local_state 1707987600000 (Some '' Jane '') (Some ''jane@x.com''))
       = [UserSignedIn (demo_user 1707987600000 ''Jane'' ''jane@x.com'')]
   \<and> alerts (completeDemoLogin local_state 1707987600000 (Some [CHR 0xC2, CHR 0xA0]) (Some ''jane@x.com''))
       = [AuthError ''Please enter your name'']"
proof -
  have t: "trim '' Jane '' = ''Jane''" "trim ''jane@x.com'' = ''jane@x.com''"
    by (simp_all add: trim_samples)
  have a: "alerts (completeDemoLogin local_state 1707987600000 (Some ''Jane'') (Some ''jane.x.com''))
           = [AuthError ''Please enter a valid email'']"
    by (simp add: completeDemoLogin_def trim_samples showAuthError_def local_state_def)
  have b: "alerts (completeDemoLogin local_state 1707987600000 (Some [CHR 0xC2, CHR 0xA0]) (Some ''jane@x.com''))
           = [AuthError ''Please enter your name'']"
    by (simp add: completeDemoLogin_def trim_samples showAuthError_def local_state_def)
  have d: "dispatched local_state = []"
    by (simp add: local_state_def)
  show ?thesis
    using a b d t
      demo_login_validation [of "Some ''Jane''" "Some ''jane.x.com''" local_state 1707987600000]
      demo_login_validation [of "Some '' Jane ''" "Some ''jane@x.com''" local_state 1707987600000]
    by simp
qed

subsection \<open>Reading opportunities\<close>

lemma strict_eq_bool: "strict_eq v (Some (JBool b)) \<Longrightarrow> v = Some (JBool b)"
  by (cases "(v, Some (JBool b))" rule: strict_eq.cases) auto

lemma static_opportunities_eq:
  "static_opportunities st
   = (snapshot_rows st,
      st\<lparr>requests := requests st @ [FetchStatic ''/volunteer-connect-hub/data/opportunities.json'']\<rparr>)"
  by (cases "staticSnapshot st")
     (auto simp: static_opportunities_def snapshot_rows_def Let_def field_def js_or_def
        split: sum.splits option.splits)

lemma snapshot_rows_user [simp]: "snapshot_rows (st\<lparr>sessionUser := u\<rparr>) = snapshot_rows st"
  by (simp add: snapshot_rows_def)

lemma opportunities_ignore_user:
  "dbGetOpportunities (st\<lparr>sessionUser := u\<rparr>) f
   = (fst (dbGetOpportunities st f), (snd (dbGetOpportunities st f))\<lparr>sessionUser := u\<rparr>)"
  by (simp add: dbGetOpportunities_def send_def static_opportunities_eq isDatabaseAvailable_def
      snapshot_rows_def split: prod.splits)

lemma opportunities_requests:
  "requests (snd (dbGetOpportunities st f))
   = requests st
     @ (if isDatabaseAvailable st then [opportunities_query f] else [])
     @ (if isDatabaseAvailable st \<and> \<not> truthy (snd (backend st (opportunities_query f)))
           \<and> truthy (fst (backend st (opportunities_query f)))
        then [] else [FetchStatic ''/volunteer-connect-hub/data/opportunities.json''])"
  by (simp add: dbGetOpportunities_def send_def static_opportunities_eq split: prod.splits)

lemma opportunities_result:
  "fst (dbGetOpportunities st f)
   = (if isDatabaseAvailable st \<and> \<not> truthy (snd (backend st (opportunities_query f)))
           \<and> truthy (fst (backend st (opportunities_query f)))
      then fst (backend st (opportunities_query f)) else snapshot_rows st)"
  by (simp add: dbGetOpportunities_def send_def static_opportunities_eq snapshot_rows_def
      split: prod.splits)

lemma asked_rows_active:
  assumes "answers_as_asked rt (opportunities_query f) rows"
  shows "list_all (\<lambda>row. field row ''is_active'' = Some (JBool True)) rows"
  using assms
  by (auto simp: opportunities_query_def list_all_iff dest: strict_eq_bool)

lemma passes_contains:
  "passes rt (Contains col [c]) row \<Longrightarrow> \<exists>xs. field row col = Some (JArr xs) \<and> c \<in> set xs"
  by (cases "field row col") (auto split: json.splits)

lemma asked_rows_cause:
  assumes "answers_as_asked rt (opportunities_query f) rows"
    and "causeArea f = Some c" and "truthy c"
  shows "list_all (\<lambda>row. \<exists>xs. field row ''cause_areas'' = Some (JArr xs) \<and> c \<in> set xs) rows"
proof -
  have "\<forall>row \<in> set rows. passes rt (Contains ''cause_areas'' [c]) row"
    using assms
    by (simp add: opportunities_query_def opt_filter_def list_all_iff del: passes.simps)
  then show ?thesis
    using passes_contains by (fastforce simp: list_all_iff)
qed

lemma asked_rows_virtual:
  assumes "answers_as_asked rt (opportunities_query f) rows"
    and "isVirtual f = Some v"
  shows "list_all (\<lambda>row. strict_eq (field row ''is_virtual'') (Some v)) rows"
  using assms
  by (auto simp: opportunities_query_def list_all_iff)

lemma asked_rows_limit:
  assumes "answers_as_asked rt (opportunities_query f) rows"
    and "limit f = Some (JNum n)" and "n \<noteq> 0"
  shows "int (length rows) \<le> n"
  using assms
  by (auto simp: opportunities_query_def truthy_val_def)


text \<open>
  C8. \<^verbatim>\<open>getOpportunities\<close> never looks at the session user: its result does not depend on who,
  if anybody, is signed in, and it sends no user lookup. In remote mode it sends one select
  on \<^verbatim>\<open>opportunities\<close> restricted to \<^verbatim>\<open>is_active = true\<close>, with the cause-area containment,
  the \<^verbatim>\<open>is_virtual\<close> equality and the limit the filters ask for; when the backend answers it
  without error and with rows that are as asked, those rows are returned, each active, each
  matching the optional filters, and no more than the limit. When remote mode is
  unavailable, or the backend reports an error or no data, the bundled snapshot is read and
  its list (the empty list when it cannot be read) is returned: no failure reaches the caller.
\<close>

theorem opportunities_read:
  "dbGetOpportunities (st\<lparr>sessionUser := u\<rparr>) f
     = (fst (dbGetOpportunities st f), (snd (dbGetOpportunities st f))\<lparr>sessionUser := u\<rparr>)
   \<and> requests (snd (dbGetOpportunities st f))
       = requests st
         @ (if isDatabaseAvailable st then [opportunities_query f] else [])
         @ (if isDatabaseAvailable st \<and> \<not> truthy (snd (backend st (opportunities_query f)))
               \<and> truthy (fst (backend st (opportunities_query f)))
            then [] else [FetchStatic ''/volunteer-connect-hub/data/opportunities.json''])
   \<and> (isDatabaseAvailable st \<and> backend st (opportunities_query f) = (JArr rows, err) \<and> \<not> truthy err
        \<and> answers_as_asked rt (opportunities_query f) rows \<longrightarrow>
       fst (dbGetOpportunities st f) = JArr rows
       \<and> list_all (\<lambda>row. field row ''is_active'' = Some (JBool True)) rows
       \<and> (\<forall>c. causeArea f = Some c \<and> truthy c \<longrightarrow>
            list_all (\<lambda>row. \<exists>xs. field row ''cause_areas'' = Some (JArr xs) \<and> c \<in> set xs) rows)
       \<and> (\<forall>v. isVirtual f = Some v \<longrightarrow>
            list_all (\<lambda>row. strict_eq (field row ''is_virtual'') (Some v)) rows)
       \<and> (\<forall>n. limit f = Some (JNum n) \<and> n \<noteq> 0 \<longrightarrow> int (length rows) \<le> n))
   \<and> (\<not> isDatabaseAvailable st \<or> truthy (snd (backend st (opportunities_query f)))
        \<or> \<not> truthy (fst (backend st (opportunities_query f))) \<longrightarrow>
       fst (dbGetOpportunities st f) = snapshot_rows st)"
proof (intro conjI impI allI)
  show "dbGetOpportunities (st\<lparr>sessionUser := u\<rparr>) f
     = (fst (dbGetOpportunities st f), (snd (dbGetOpportunities st f))\<lparr>sessionUser := u\<rparr>)"
    by (rule opportunities_ignore_user)
  show "requests (snd (dbGetOpportunities st f))
       = requests st
         @ (if isDatabaseAvailable st then [opportunities_query f] else [])
         @ (if isDatabaseAvailable st \<and> \<not> truthy (snd (backend st (opportunities_query f)))
               \<and> truthy (fst (backend st (opportunities_query f)))
            then [] else [FetchStatic ''/volunteer-connect-hub/data/opportunities.json''])"
    by (rule opportunities_requests)
next
  assume served: "isDatabaseAvailable st \<and> backend st (opportunities_query f) = (JArr rows, err)
      \<and> \<not> truthy err \<and> answers_as_asked rt (opportunities_query f) rows"
  then have asked: "answers_as_asked rt (opportunities_query f) rows" by simp
  show "fst (dbGetOpportunities st f) = JArr rows"
    using served by (simp add: opportunities_result)
  show "list_all (\<lambda>row. field row ''is_active'' = Some (JBool True)) rows"
    using asked by (rule asked_rows_active)
  show "list_all (\<lambda>row. \<exists>xs. field row ''cause_areas'' = Some (JArr xs) \<and> c \<in> set xs) rows"
    if "causeArea f = Some c \<and> truthy c" for c
    using asked_rows_cause [OF asked] that by blast
  show "list_all (\<lambda>row. strict_eq (field row ''is_virtual'') (Some v)) rows"
    if "isVirtual f = Some v" for v
    using asked_rows_virtual [OF asked that] .
  show "int (length rows) \<le> n" if "limit f = Some (JNum n) \<and> n \<noteq> 0" for n
    using asked_rows_limit [OF asked] that by blast
next
  assume "\<not> isDatabaseAvailable st \<or> truthy (snd (backend st (opportunities_query f)))
        \<or> \<not> truthy (fst (backend st (opportunities_query f)))"
  then show "fst (dbGetOpportunities st f) = snapshot_rows st"
    by (auto simp: opportunities_result)
qed

theorem opportunities_read_witness:
  "isDatabaseAvailable serving_state
   \<and> \<not> truthy (sessionUser serving_state)
   \<and> answers_as_asked sample_runtime (opportunities_query hunger_filters)
        [opportunity ''Food sorting'' ''hunger'', opportunity ''Meal delivery'' ''hunger'']
   \<and> fst (dbGetOpportunities serving_state hunger_filters)
       = JArr [opportunity ''Food sorting'' ''hunger'', opportunity ''Meal delivery'' ''hunger'']
   \<and> requests (snd (dbGetOpportunities serving_state hunger_filters))
       = [Select ''opportunities''
            [Eq ''is_active'' (Some (JBool True)), Contains ''cause_areas'' [JStr ''hunger''],
             Eq ''is_virtual'' (Some (JBool False))]
            (Some (''updated_at'', False)) (Some (JNum 5)) False]
   \<and> truthy (snd (backend failing_state (opportunities_query hunger_filters)))
   \<and> fst (dbGetOpportunities failing_state hunger_filters)
       = JArr [opportunity ''Park cleanup'' ''environment'']
   \<and> requests (snd (dbGetOpportunities failing_state hunger_filters))
       = [opportunities_query hunger_filters,
          FetchStatic ''/volunteer-connect-hub/data/opportunities.json'']"
proof -
  let ?rows = "[opportunity ''Food sorting'' ''hunger'', opportunity ''Meal delivery'' ''hunger'']"
  have a: "isDatabaseAvailable serving_state"
    by (simp add: serving_state_def remote_anonymous_def isDatabaseAvailable_def)
  have b: "\<not> truthy (sessionUser serving_state)"
    by (simp add: serving_state_def remote_anonymous_def)
  have c: "backend serving_state (opportunities_query hunger_filters) = (JArr ?rows, JNull)"
    by (simp add: serving_state_def)
  have q: "opportunities_query hunger_filters
           = Select ''opportunities''
               [Eq ''is_active'' (Some (JBool True)), Contains ''cause_areas'' [JStr ''hunger''],
                Eq ''is_virtual'' (Some (JBool False))]
               (Some (''updated_at'', False)) (Some (JNum 5)) False"
    by (simp add: opportunities_query_def hunger_filters_def opt_filter_def truthy_val_def)
  have d: "answers_as_asked sample_runtime (opportunities_query hunger_filters) ?rows"
    by (simp add: q opportunity_def field_def)
  have e: "requests serving_state = []" "requests failing_state = []"
    by (simp_all add: serving_state_def failing_state_def remote_anonymous_def local_state_def)
  have f: "isDatabaseAvailable failing_state"
    by (simp add: failing_state_def remote_anonymous_def isDatabaseAvailable_def)
  have g: "truthy (snd (backend failing_state (opportunities_query hunger_filters)))"
    by (simp add: failing_state_def)
  have h: "snapshot_rows failing_state = JArr [opportunity ''Park cleanup'' ''environment'']"
    by (simp add: snapshot_rows_def failing_state_def remote_anonymous_def field_def js_or_def)
  show ?thesis
    using a b c d e f g h
      opportunities_read [where st = serving_state and u = JNull and f = hunger_filters
        and rows = ?rows and err = JNull and rt = sample_runtime]
      opportunities_read [where st = failing_state and u = JNull and f = hunger_filters
        and rows = "[]" and err = JNull and rt = sample_runtime]
    by (simp add: q)
qed

subsection \<open>Calendar export\<close>

































lemma export_unrenderable:
  "exportToICS sample_runtime
     (schedule_of [shift_event,
        JObj [(''id'', JStr ''lsn2x4k5mno''), (''date'', JStr ''2024-03-01T18:30:00Z''),
              (''title'', JObj [(''toString'', JStr ''Gala'')])]])
   = Inl TypeError"
  by code_simp




subsection \<open>Letter generation\<close>

lemma templates_nonempty:
  "getApplicationTemplate ctx \<noteq> []" "getThankYouTemplate ctx \<noteq> []"
  "getOutreachTemplate ctx \<noteq> []" "getFollowUpTemplate ctx \<noteq> []"
  by (simp_all add: getApplicationTemplate_def getThankYouTemplate_def getOutreachTemplate_def
      getFollowUpTemplate_def nl_def)

text \<open>
  For every context that is not \<^verbatim>\<open>null\<close> and whose truthy template fields have a
  rendering: each of the four known tags gives its template,
  and a tag that is neither known nor the name of a member of \<^verbatim>\<open>Object.prototype\<close> gives the
  application template.
\<close>

theorem generate_letter_templates:
  assumes "ctx \<noteq> JNull" and "context_renders ctx"
  shows "generateLetter ''application'' ctx = Inr (LetterText (getApplicationTemplate ctx))
       \<and> generateLetter ''thankyou'' ctx = Inr (LetterText (getThankYouTemplate ctx))
       \<and> generateLetter ''outreach'' ctx = Inr (LetterText (getOutreachTemplate ctx))
       \<and> generateLetter ''followup'' ctx = Inr (LetterText (getFollowUpTemplate ctx))
       \<and> (tag \<notin> set [''application'', ''thankyou'', ''outreach'', ''followup'']
            \<and> tag \<notin> set object_prototype_members \<longrightarrow>
          generateLetter tag ctx = Inr (LetterText (getApplicationTemplate ctx)))"
  using assms
  by (simp add: generateLetter_def templates_def templates_nonempty)

theorem generate_letter_templates_witness:
  "JObj [(''organization'', JStr ''Community Center'')] \<noteq> JNull
   \<and> context_renders (JObj [(''organization'', JStr ''Community Center'')])
   \<and> ''newsletter'' \<notin> set [''application'', ''thankyou'', ''outreach'', ''followup'']
   \<and> ''newsletter'' \<notin> set object_prototype_members
   \<and> generateLetter ''newsletter'' (JObj [(''organization'', JStr ''Community Center'')])
       = generateLetter ''application'' (JObj [(''organization'', JStr ''Community Center'')])
   \<and> generateLetter ''thankyou'' (JObj [(''organization'', JStr ''Community Center'')])
       = Inr (LetterText (getThankYouTemplate (JObj [(''organization'', JStr ''Community Center'')])))"
proof -
  have a: "context_renders (JObj [(''organization'', JStr ''Community Center'')])"
    by (simp add: context_renders_def template_fields_def field_def js_or_def)
  show ?thesis
    using a generate_letter_templates [OF _ a, of "''newsletter''"]
    by (simp add: object_prototype_members_def)
qed

text \<open>
  C10. The claim does not hold for the unknown tags that name a member of
  \<^verbatim>\<open>Object.prototype\<close>: \<^verbatim>\<open>templates[type]\<close> finds the inherited member, which is truthy, so
  \<^verbatim>\<open>generateLetter('toString', {})\<close> returns that function, not the application letter.
\<close>

theorem generate_letter_inherited_member:
  "generateLetter ''toString'' (JObj []) = Inr (InheritedMember ''toString'')
   \<and> generateLetter ''toString'' (JObj []) \<noteq> Inr (LetterText (getApplicationTemplate (JObj [])))
   \<and> generateLetter ''constructor'' (JObj [(''organization'', JStr ''Community Center'')])
       = Inr (InheritedMember ''constructor'')"
  by (simp add: generateLetter_def templates_def object_prototype_members_def context_renders_def
      template_fields_def field_def js_or_def)

end
